theory Spec2Isabelle
  imports Complex_Main
begin

section \<open>The atmospheric-correction interpolation engine of \<^verbatim>\<open>lut_subr.c\<close>\<close>

text \<open>
  The functions of \<^verbatim>\<open>lasrc/c_version/src/lut_subr.c\<close> that turn top-of-atmosphere
  reflectance into surface reflectance are embedded as HOL functions.

  Conventions of the embedding.
  \<^item> C \<^verbatim>\<open>float\<close> and \<^verbatim>\<open>double\<close> values are real numbers; infinities and NaN are not
    represented. \<^verbatim>\<open>exp\<close>, \<^verbatim>\<open>log\<close>, \<^verbatim>\<open>cos\<close>, \<^verbatim>\<open>acos\<close> and \<^verbatim>\<open>sqrt\<close> are the real
    functions \<open>exp\<close>, \<open>ln\<close>, \<open>cos\<close>, \<open>arccos\<close> and \<open>sqrt\<close>.
  \<^item> The angle indices and the interpolations (\<^verbatim>\<open>compsalb\<close>, \<^verbatim>\<open>comptrans\<close>,
    \<^verbatim>\<open>comproatm\<close>, \<^verbatim>\<open>interp_refl_using_scat_angle\<close>) are embedded with their rounding:
    every operation of their fractions and blends is rounded to binary32 (\<open>fl32\<close>), or
    to binary64 (\<open>fl64\<close>) where an operand is a \<^verbatim>\<open>double\<close>, to nearest with ties to
    even, each operation on its own. The exponent range is not bounded: overflow and
    subnormal numbers are not represented.
  \<^item> The closed-form models (\<^verbatim>\<open>comptg\<close>, \<^verbatim>\<open>local_chand\<close>), the AOT adjustment, the
    scattering angle with its bracket, and the final composition of \<^verbatim>\<open>atmcorlamb2\<close>
    and \<^verbatim>\<open>atmcorlamb2_new\<close> are evaluated over the reals, without rounding.
  \<^item> C \<^verbatim>\<open>int\<close> values are mathematical integers; the conversion \<^verbatim>\<open>(int) x\<close> truncates
    towards zero (\<open>int_cast\<close>). For the angle indices, where the operand is an
    unchecked argument, the conversion is \<open>int_conv\<close>: outside the range of \<^verbatim>\<open>int\<close>,
    where C leaves the conversion undefined, it is \<^verbatim>\<open>INT_MIN\<close>, the result of the
    conversion instruction of x86-64.
  \<^item> An array or pointer argument is a function from the element index to the element
    (\<open>int \<Rightarrow> real\<close>); the small local arrays of four corner values are lists.
  \<^item> A function with output parameters returns the values it stores, in the order of
    the parameters. A function that may return without storing its output returns a
    sum: \<open>Inl\<close> carries the reported message, \<open>Inr\<close> the stored value.
  \<^item> The final division of the inversion has a divisor that depends on the pixel data
    and is not guarded in the source. \<open>fdiv\<close> makes the zero divisor visible: \<open>None\<close>
    stands for the non-finite value that IEEE division yields there.
\<close>

subsection \<open>Header constants and basic conversions\<close>

text \<open>
  The macros below are defined in \<^verbatim>\<open>lut_subr.h\<close> and the headers it includes, not in
  \<^verbatim>\<open>lut_subr.c\<close>. Every function that uses one takes them as the parameter \<open>h\<close>.
  The enumeration \<^verbatim>\<open>Sat_t\<close> is declared there as well; its three values are the ones
  that \<^verbatim>\<open>lut_subr.c\<close> tests.
\<close>

record hdr =
  NPRES_VALS :: int
  NAOT_VALS :: int
  NSOLAR_VALS :: int
  NSUNANGLE_VALS :: int
  NSOLAR_ZEN_VALS :: int
  NAOTxNSOLAR_VALS :: int
  NAOTxNSUNANGLE_VALS :: int
  DNL_BAND7 :: int
  DNS_BAND12 :: int
  ONE_DIV_ATMOS_PRES_0 :: real
  DEG2RAD :: real
  RAD2DEG :: real

datatype Sat_t = SAT_LANDSAT_8 | SAT_LANDSAT_9 | SAT_SENTINEL_2

text \<open>The message handed to \<^verbatim>\<open>error_handler\<close> and the value printed with it.\<close>

datatype error = ERROR string real

definition int_cast :: "real \<Rightarrow> int" where
  "int_cast x = (if 0 \<le> x then \<lfloor>x\<rfloor> else \<lceil>x\<rceil>)"

text \<open>
  \<^verbatim>\<open>pow (x, y)\<close>. The source calls it on positive bases (a wavelength ratio, an airmass,
  a water-vapour path above the threshold), where it is \<open>x powr y\<close>.
\<close>

definition c_pow :: "real \<Rightarrow> real \<Rightarrow> real" where
  "c_pow x y = x powr y"

definition fdiv :: "real \<Rightarrow> real \<Rightarrow> real option" where
  "fdiv x y = (if y = 0 then None else Some (x / y))"

text \<open>
  Rounding to a binary floating-point format with a significand of \<open>p\<close> bits: \<open>e\<close> is
  the exponent of \<open>x\<close>, \<open>u\<close> the distance of neighbouring numbers of the format at
  that exponent, and \<open>x\<close> is rounded to the nearest multiple of \<open>u\<close>, a tie to the even
  one.
\<close>

definition round_even :: "real \<Rightarrow> int" where
  "round_even y =
     (let f = \<lfloor>y\<rfloor>
      in if y - of_int f < 1 / 2 then f
         else if 1 / 2 < y - of_int f then f + 1
         else if even f then f else f + 1)"

definition fl :: "nat \<Rightarrow> real \<Rightarrow> real" where
  "fl p x =
     (if x = 0 then 0
      else (let e = \<lfloor>log 2 \<bar>x\<bar>\<rfloor>;
                u = 2 powr (of_int e - real p + 1)
            in of_int (round_even (x / u)) * u))"

definition fl32 :: "real \<Rightarrow> real" where
  "fl32 = fl 24"

definition fl64 :: "real \<Rightarrow> real" where
  "fl64 = fl 53"

text \<open>
  The conversion \<^verbatim>\<open>(int) x\<close> of an angle quotient: truncation when the truncated value
  is an \<^verbatim>\<open>int\<close>, \<^verbatim>\<open>INT_MIN\<close> otherwise.
\<close>

definition int_conv :: "real \<Rightarrow> int" where
  "int_conv x =
     (if - 2147483649 < x \<and> x < 2147483648 then int_cast x else - 2147483648)"

text \<open>
  \<^verbatim>\<open>Determine the index in the sun angle table\<close>, the same statements in
  \<^verbatim>\<open>atmcorlamb2\<close> and in \<^verbatim>\<open>comptrans\<close>: the quotient of two binary32 operations,
  converted to \<^verbatim>\<open>int\<close>. With a zero step the quotient of the positive difference is
  an infinity, whose conversion is \<^verbatim>\<open>INT_MIN\<close> as well.
\<close>

definition sun_index :: "real \<Rightarrow> real \<Rightarrow> real \<Rightarrow> int" where
  "sun_index xts xtsmin xtsstep =
     (if xts \<le> xtsmin then 0
      else if xtsstep = 0 then - 2147483648
      else int_conv (fl32 (fl32 (xts - xtsmin) / xtsstep)))"

text \<open>
  \<^verbatim>\<open>Determine the index in the view angle table\<close>: the binary32 quotient is promoted
  to \<^verbatim>\<open>double\<close> for the addition of \<^verbatim>\<open>1.0\<close>.
\<close>

definition view_index :: "real \<Rightarrow> real \<Rightarrow> real \<Rightarrow> int" where
  "view_index xtv xtvmin xtvstep =
     (if xtv \<le> xtvmin then 0
      else if xtvstep = 0 then - 2147483648
      else int_conv (fl64 (fl32 (fl32 (xtv - xtvmin) / xtvstep) + 1.0)))"

text \<open>
  The C expression \<^verbatim>\<open>a + (b - a) * d\<close> on \<^verbatim>\<open>float\<close> operands, and the fraction
  \<^verbatim>\<open>(x - lo) / (hi - lo)\<close> on \<^verbatim>\<open>float\<close> operands; the composers are stated with them.
\<close>

definition lerp32 :: "real \<Rightarrow> real \<Rightarrow> real \<Rightarrow> real" where
  "lerp32 a b d = fl32 (a + fl32 (fl32 (b - a) * d))"

definition frac32 :: "real \<Rightarrow> real \<Rightarrow> real \<Rightarrow> real" where
  "frac32 x lo hi = fl32 (fl32 (x - lo) / fl32 (hi - lo))"

definition landsat_lambda :: "real list" where
  "landsat_lambda = [0.443, 0.480, 0.585, 0.655, 0.865, 1.61, 2.2]"

text \<open>The default build (\<^verbatim>\<open>PROC_ALL_BANDS\<close> undefined) skips bands 9 and 10.\<close>

definition sentinel_lambda :: "real list" where
  "sentinel_lambda =
     [0.443, 0.490, 0.560, 0.665, 0.705, 0.740, 0.783, 0.842, 0.865, 1.61, 2.19]"

subsection \<open>The AOT adjustment shared by both solvers\<close>

text \<open>
  \<^verbatim>\<open>Setup Landsat or Sentinel variables\<close>: the wavelength table and the largest band
  index. The initial values \<^verbatim>\<open>NULL\<close> and \<^verbatim>\<open>0\<close> stay when no branch applies.
\<close>

definition sat_setup :: "hdr \<Rightarrow> Sat_t \<Rightarrow> real list \<times> int" where
  "sat_setup h sat =
     (if sat = SAT_LANDSAT_8 \<or> sat = SAT_LANDSAT_9 then (landsat_lambda, DNL_BAND7 h)
      else if sat = SAT_SENTINEL_2 then (sentinel_lambda, DNS_BAND12 h)
      else ([], 0))"

text \<open>
  \<^verbatim>\<open>Modify the AOT value based on the angstrom coefficient and lambda values\<close>.
  \<open>normext_corner\<close> is \<^verbatim>\<open>normext[iband * NPRES_VALS * NAOT_VALS + 3]\<close> in \<^verbatim>\<open>atmcorlamb2\<close>
  and the argument \<^verbatim>\<open>normext_ib_0_3\<close> in \<^verbatim>\<open>atmcorlamb2_new\<close>.
\<close>

definition modify_aot :: "hdr \<Rightarrow> Sat_t \<Rightarrow> real \<Rightarrow> int \<Rightarrow> real \<Rightarrow> real \<Rightarrow> real" where
  "modify_aot h sat eps iband raot550nm normext_corner =
     (let (lambda, max_band_indx) = sat_setup h sat;
          lambda_sf = 1 / 0.55
      in if eps < 0 \<or> iband > max_band_indx then raot550nm
         else (raot550nm / normext_corner) * c_pow (lambda ! nat iband * lambda_sf) (- eps))"

subsection \<open>\<^verbatim>\<open>atmcorlamb2_new\<close>\<close>

text \<open>The AOT value after \<^verbatim>\<open>Check the upper limit of the modified AOT value\<close>.\<close>

definition mraot550nm_new :: "hdr \<Rightarrow> Sat_t \<Rightarrow> real \<Rightarrow> real \<Rightarrow> int \<Rightarrow> real \<Rightarrow> real \<Rightarrow> real" where
  "mraot550nm_new h sat roatm_upper raot550nm iband normext_ib_0_3 eps =
     (let mraot550nm = modify_aot h sat eps iband raot550nm normext_ib_0_3
      in if mraot550nm \<ge> roatm_upper then roatm_upper else mraot550nm)"

definition atmcorlamb2_new ::
  "hdr \<Rightarrow> Sat_t \<Rightarrow> real \<Rightarrow> real \<Rightarrow> (int \<Rightarrow> real) \<Rightarrow> (int \<Rightarrow> real) \<Rightarrow> (int \<Rightarrow> real) \<Rightarrow>
   real \<Rightarrow> int \<Rightarrow> real \<Rightarrow> real \<Rightarrow> real \<Rightarrow> real option" where
  "atmcorlamb2_new h sat tgo roatm_upper roatm_coef ttatmg_coef satm_coef raot550nm iband
     normext_ib_0_3 rotoa eps =
     (let mraot550nm = mraot550nm_new h sat roatm_upper raot550nm iband normext_ib_0_3 eps;
          mraot550nm_sq = mraot550nm * mraot550nm;
          mraot550nm_cube = mraot550nm_sq * mraot550nm;
          roatm = roatm_coef 3 + roatm_coef 2 * mraot550nm + roatm_coef 1 * mraot550nm_sq +
                  roatm_coef 0 * mraot550nm_cube;
          ttatmg = ttatmg_coef 3 + ttatmg_coef 2 * mraot550nm + ttatmg_coef 1 * mraot550nm_sq +
                   ttatmg_coef 0 * mraot550nm_cube;
          satm = satm_coef 3 + satm_coef 2 * mraot550nm + satm_coef 1 * mraot550nm_sq +
                 satm_coef 0 * mraot550nm_cube;
          roslamb = rotoa - tgo * roatm
      in fdiv roslamb (tgo * ttatmg + satm * roslamb))"

subsection \<open>\<^verbatim>\<open>local_chand\<close>: molecular reflectance\<close>

definition local_chand :: "hdr \<Rightarrow> real \<Rightarrow> real \<Rightarrow> real \<Rightarrow> real \<Rightarrow> real" where
  "local_chand h xphi xmuv xmus xtau =
     (let xfd = 0.958725777;
          as0 = [0.33243832, - 0.06777104, 0.16285370, 0.001577425, - 0.30924818,
                 - 0.01240906, - 0.10324388, 0.03241678, 0.11493334, - 0.03503695];
          as1 = [0.19666292, - 0.05439061];
          as2 = [0.14545937, - 0.02910845];
          phios = xphi * DEG2RAD h;
          xcosf2 = - cos phios;
          xcosf3 = cos (2 * phios);
          xmus2 = xmus * xmus;
          xmuv2 = xmuv * xmuv;
          xph1 = 1 + (3 * xmus2 - 1) * (3 * xmuv2 - 1) * xfd * 0.125;
          xph3 = (1 - xmus2) * (1 - xmuv2);
          xph2 = - xmus * xmuv * sqrt xph3;
          xph2 = xph2 * xfd * 0.75;
          xph3 = xph3 * xfd * 0.1875;
          xitm = (1 - exp (- xtau * (1 / xmus + 1 / xmuv))) / (4 * (xmus + xmuv));
          xp1 = xph1 * xitm;
          xp2 = xph2 * xitm;
          xp3 = xph3 * xitm;
          xitm = (1 - exp (- xtau / xmus)) * (1 - exp (- xtau / xmuv));
          cfonc1 = xph1 * xitm;
          cfonc2 = xph2 * xitm;
          cfonc3 = xph3 * xitm;
          xlntau = ln xtau;
          pl0 = 1;
          pl1 = xlntau;
          pl2 = xmus + xmuv;
          pl3 = xlntau * pl2;
          pl4 = xmus * xmuv;
          pl5 = xlntau * pl4;
          pl6 = xmus2 + xmuv2;
          pl7 = xlntau * pl6;
          pl8 = xmus2 * xmuv2;
          pl9 = xlntau * pl8;
          pl = [pl0, pl1, pl2, pl3, pl4, pl5, pl6, pl7, pl8, pl9];
          fs0 = fold (\<lambda>i fs0. fs0 + pl ! i * as0 ! i) [0..<10] 0;
          fs1 = pl ! 0 * as1 ! 0 + pl ! 1 * as1 ! 1;
          fs2 = pl ! 0 * as2 ! 0 + pl ! 1 * as2 ! 1;
          xitot1 = xp1 + cfonc1 * fs0;
          xitot2 = xp2 + cfonc2 * fs1;
          xitot3 = xp3 + cfonc3 * fs2
      in xitot1 + 2 * (xitot2 * xcosf2 + xitot3 * xcosf3))"

subsection \<open>\<^verbatim>\<open>comptg\<close>: gas transmission\<close>

text \<open>The result is \<open>(tgoz, tgwv, tgwvhalf, tgog)\<close>.\<close>

definition comptg ::
  "int \<Rightarrow> real \<Rightarrow> real \<Rightarrow> real \<Rightarrow> real \<Rightarrow> real \<Rightarrow> (int \<Rightarrow> real) \<Rightarrow> (int \<Rightarrow> real) \<Rightarrow>
   (int \<Rightarrow> real) \<Rightarrow> (int \<Rightarrow> real) \<Rightarrow> (int \<Rightarrow> real) \<Rightarrow> (int \<Rightarrow> real) \<Rightarrow>
   real \<times> real \<times> real \<times> real" where
  "comptg iband xmus xmuv uoz uwv atm_pres ogtransa1 ogtransb0 ogtransb1 wvtransa wvtransb
     oztransa =
     (let m = 1 / xmus + 1 / xmuv;
          tgoz = exp (oztransa iband * m * uoz);
          a = wvtransa iband;
          b = wvtransb iband;
          x = m * uwv;
          tgwv = (if x > 0.000001 then exp (- a * c_pow x b) else 1);
          x = x * 0.5;
          tgwvhalf = (if x > 0.000001 then exp (- a * c_pow x b) else 1);
          tgog = - (ogtransa1 iband * atm_pres) *
                 c_pow m (exp (- (ogtransb0 iband + ogtransb1 iband * atm_pres)));
          tgog = exp tgog
      in (tgoz, tgwv, tgwvhalf, tgog))"

subsection \<open>\<^verbatim>\<open>compsalb\<close>: spherical albedo\<close>

definition compsalb ::
  "hdr \<Rightarrow> int \<Rightarrow> int \<Rightarrow> int \<Rightarrow> int \<Rightarrow> real \<Rightarrow> int \<Rightarrow> real \<Rightarrow> (int \<Rightarrow> real) \<Rightarrow>
   (int \<Rightarrow> real) \<Rightarrow> (int \<Rightarrow> real) \<Rightarrow> (int \<Rightarrow> real) \<Rightarrow> real" where
  "compsalb h ip1 ip2 iaot1 iaot2 raot550nm iband pres tpres aot550nm sphalbt normext =
     (let deltaaot = fl32 (raot550nm - aot550nm iaot1);
          deltaaot = fl32 (deltaaot / fl32 (aot550nm iaot2 - aot550nm iaot1));
          iband_indx = iband * NPRES_VALS h * NAOT_VALS h;
          ip1_indx = ip1 * NAOT_VALS h;
          ip2_indx = ip2 * NAOT_VALS h;
          iband_ip1_iaot1_indx = iband_indx + ip1_indx + iaot1;
          iband_ip1_iaot2_indx = iband_indx + ip1_indx + iaot2;
          iband_ip2_iaot1_indx = iband_indx + ip2_indx + iaot1;
          iband_ip2_iaot2_indx = iband_indx + ip2_indx + iaot2;
          xtiaot1 = sphalbt iband_ip1_iaot1_indx;
          xtiaot2 = sphalbt iband_ip1_iaot2_indx;
          satm1 = fl32 (xtiaot1 + fl32 (fl32 (xtiaot2 - xtiaot1) * deltaaot));
          xtiaot1 = sphalbt iband_ip2_iaot1_indx;
          xtiaot2 = sphalbt iband_ip2_iaot2_indx;
          satm2 = fl32 (xtiaot1 + fl32 (fl32 (xtiaot2 - xtiaot1) * deltaaot));
          dpres = fl32 (fl32 (pres - tpres ip1) / fl32 (tpres ip2 - tpres ip1))
      in fl32 (satm1 + fl32 (fl32 (satm2 - satm1) * dpres)))"

subsection \<open>\<^verbatim>\<open>comptrans\<close>: transmission\<close>

text \<open>
  \<open>Inl\<close>: the angle index exceeds 19, the message is reported and the function returns
  without storing \<^verbatim>\<open>*xtts\<close>. \<open>Inr v\<close>: \<open>v\<close> is stored in \<^verbatim>\<open>*xtts\<close>.
\<close>

definition comptrans ::
  "hdr \<Rightarrow> int \<Rightarrow> int \<Rightarrow> int \<Rightarrow> int \<Rightarrow> real \<Rightarrow> real \<Rightarrow> int \<Rightarrow> real \<Rightarrow> (int \<Rightarrow> real) \<Rightarrow>
   (int \<Rightarrow> real) \<Rightarrow> (int \<Rightarrow> real) \<Rightarrow> real \<Rightarrow> real \<Rightarrow> (int \<Rightarrow> real) \<Rightarrow> error + real" where
  "comptrans h ip1 ip2 iaot1 iaot2 xts raot550nm iband pres tpres aot550nm transt xtsstep
     xtsmin tts =
     (let its = sun_index xts xtsmin xtsstep
      in if its > 19 then Inl (ERROR ''Zenith angle (xts) is too large'' xts)
         else
           (let iband_indx = iband * NPRES_VALS h * NAOTxNSUNANGLE_VALS h;
                ip1_indx = ip1 * NAOTxNSUNANGLE_VALS h;
                ip2_indx = ip2 * NAOTxNSUNANGLE_VALS h;
                iaot1_indx = iaot1 * NSUNANGLE_VALS h;
                iaot2_indx = iaot2 * NSUNANGLE_VALS h;
                iband_ip1_iaot1_indx = iband_indx + ip1_indx + iaot1_indx;
                iband_ip1_iaot2_indx = iband_indx + ip1_indx + iaot2_indx;
                iband_ip2_iaot1_indx = iband_indx + ip2_indx + iaot1_indx;
                iband_ip2_iaot2_indx = iband_indx + ip2_indx + iaot2_indx;
                xmts = fl32 (fl64 (fl32 (xts - tts its) * 0.25));
                xtranst = transt (iband_ip1_iaot1_indx + its);
                xtiaot1 = fl32 (xtranst +
                            fl32 (fl32 (transt (iband_ip1_iaot1_indx + its + 1) - xtranst) * xmts));
                xtranst = transt (iband_ip1_iaot2_indx + its);
                xtiaot2 = fl32 (xtranst +
                            fl32 (fl32 (transt (iband_ip1_iaot2_indx + its + 1) - xtranst) * xmts));
                deltaaot = fl32 (raot550nm - aot550nm iaot1);
                deltaaot = fl32 (deltaaot / fl32 (aot550nm iaot2 - aot550nm iaot1));
                xtts1 = fl32 (xtiaot1 + fl32 (fl32 (xtiaot2 - xtiaot1) * deltaaot));
                xtranst = transt (iband_ip2_iaot1_indx + its);
                xtiaot1 = fl32 (xtranst +
                            fl32 (fl32 (transt (iband_ip2_iaot1_indx + its + 1) - xtranst) * xmts));
                xtranst = transt (iband_ip2_iaot2_indx + its);
                xtiaot2 = fl32 (xtranst +
                            fl32 (fl32 (transt (iband_ip2_iaot2_indx + its + 1) - xtranst) * xmts));
                xtts2 = fl32 (xtiaot1 + fl32 (fl32 (xtiaot2 - xtiaot1) * deltaaot));
                dpres = fl32 (fl32 (pres - tpres ip1) / fl32 (tpres ip2 - tpres ip1))
            in Inr (fl32 (xtts1 + fl32 (fl32 (xtts2 - xtts1) * dpres)))))"

subsection \<open>\<^verbatim>\<open>interp_refl_using_scat_angle\<close>: the four scattering-angle corners\<close>

text \<open>
  The scattering-angle bracket of one corner: the index \<^verbatim>\<open>isca\<close> after both clamps and
  the two bracketing angles \<^verbatim>\<open>sca1\<close>, \<^verbatim>\<open>sca2\<close>. The arguments are \<^verbatim>\<open>xtsmax[i]\<close>,
  \<^verbatim>\<open>xtsmin[i]\<close>, \<^verbatim>\<open>scaa\<close> and \<^verbatim>\<open>nbfi[i]\<close>.
\<close>

definition scat_bracket :: "real \<Rightarrow> real \<Rightarrow> real \<Rightarrow> real \<Rightarrow> int \<times> real \<times> real" where
  "scat_bracket xtsmax_i xtsmin_i scaa nbfi_i =
     (let isca = int_cast ((xtsmax_i - scaa) * 0.25 + 1);
          isca = (if isca \<le> 0 then 1 else isca)
      in if real_of_int (isca + 1) < nbfi_i
         then (let sca1 = xtsmax_i - real_of_int (isca - 1) * 4.0;
                   sca2 = sca1 - 4
               in (isca, sca1, sca2))
         else (let isca = int_cast (nbfi_i - 1);
                   sca1 = xtsmax_i - real_of_int (isca - 1) * 4.0;
                   sca2 = xtsmin_i
               in (isca, sca1, sca2)))"

text \<open>
  The body of the loop over the four points: the value stored in \<^verbatim>\<open>ro[i]\<close>. The
  interpolation between the two table entries and the final bilinear formula are
  binary32 operations.
\<close>

definition refl_corner ::
  "int \<Rightarrow> int \<Rightarrow> real list \<Rightarrow> real list \<Rightarrow> real \<Rightarrow> real list \<Rightarrow> real list \<Rightarrow> (int \<Rightarrow> int) \<Rightarrow>
   (int \<Rightarrow> real) \<Rightarrow> int \<Rightarrow> nat \<Rightarrow> real" where
  "refl_corner its itv xtsmax xtsmin scaa nbfic nbfi indts rolutt rolutt_indx i =
     (let is = its + int (i mod 2);
          iv = (if i < 2 then itv else itv + 1);
          j = int_cast (real_of_int (indts is) + nbfic ! i - nbfi ! i)
      in if is \<noteq> 0 \<and> iv \<noteq> 0
         then (let (isca, sca1, sca2) = scat_bracket (xtsmax ! i) (xtsmin ! i) scaa (nbfi ! i);
                   roinf = rolutt (rolutt_indx + j + isca - 1);
                   rosup = rolutt (rolutt_indx + j + isca)
               in fl32 (roinf +
                        fl32 (fl32 (fl32 (rosup - roinf) * fl32 (scaa - sca1)) /
                              fl32 (sca2 - sca1))))
         else rolutt (rolutt_indx + j))"

definition interp_refl_using_scat_angle ::
  "int \<Rightarrow> int \<Rightarrow> real list \<Rightarrow> real list \<Rightarrow> real \<Rightarrow> real list \<Rightarrow> real list \<Rightarrow> (int \<Rightarrow> int) \<Rightarrow>
   (int \<Rightarrow> real) \<Rightarrow> int \<Rightarrow> real \<Rightarrow> real \<Rightarrow> real" where
  "interp_refl_using_scat_angle its itv xtsmax xtsmin scaa nbfic nbfi indts rolutt rolutt_indx
     t u =
     (let ro = map (refl_corner its itv xtsmax xtsmin scaa nbfic nbfi indts rolutt rolutt_indx)
                 [0..<4]
      in fl32 (fl32 (fl32 (ro ! 3 + fl32 (u * fl32 (ro ! 1 - ro ! 3))) +
                     fl32 (t * fl32 (ro ! 2 - ro ! 3))) +
               fl32 (fl32 (u * t) *
                     fl32 (fl32 (fl32 (ro ! 0 - ro ! 1) - ro ! 2) + ro ! 3))))"

subsection \<open>\<^verbatim>\<open>comproatm\<close>: intrinsic atmospheric reflectance\<close>

text \<open>
  The initialisers of the local array \<^verbatim>\<open>logaot550nm\<close> as they are written, and the
  array itself: the initialisers are \<^verbatim>\<open>double\<close> constants and the array is an array of
  \<^verbatim>\<open>float\<close>, so each one is rounded to binary64 and then to binary32.
\<close>

definition logaot550nm_dec :: "real list" where
  "logaot550nm_dec =
     [- 4.605170186, - 2.995732274, - 2.302585093,
      - 1.897119985, - 1.609437912, - 1.203972804,
      - 0.916290732, - 0.510825624, - 0.223143551,
      0.000000000, 0.182321557, 0.336472237,
      0.470003629, 0.587786665, 0.693157181,
      0.832909123, 0.955511445, 1.098612289,
      1.252762969, 1.386294361, 1.504077397,
      1.609437912]"

definition logaot550nm :: "real list" where
  "logaot550nm = map (\<lambda>x. fl32 (fl64 x)) logaot550nm_dec"

text \<open>
  \<^verbatim>\<open>Interpolation as log of tau\<close>: the two statements that compute \<^verbatim>\<open>deltaaot\<close>. The
  difference of the two array elements is a binary32 operation; \<^verbatim>\<open>log\<close> returns a
  \<^verbatim>\<open>double\<close> (taken to be the binary64 number nearest to the logarithm), so the
  subtraction and the division are binary64 operations, and the result is stored in
  a \<^verbatim>\<open>float\<close>.
\<close>

definition deltaaot_log :: "real \<Rightarrow> int \<Rightarrow> int \<Rightarrow> real" where
  "deltaaot_log raot550nm iaot1 iaot2 =
     (let deltaaot = fl32 (logaot550nm ! nat iaot2 - logaot550nm ! nat iaot1);
          deltaaot = fl32 (fl64 (fl64 (fl64 (ln raot550nm) - logaot550nm ! nat iaot1) / deltaaot))
      in deltaaot)"

text \<open>
  The scattering angle \<^verbatim>\<open>scaa\<close> is evaluated over the reals; the fractions \<^verbatim>\<open>t\<close>, \<^verbatim>\<open>u\<close>,
  \<^verbatim>\<open>deltaaot\<close>, \<^verbatim>\<open>dpres\<close> and the blends are binary32 operations.
\<close>

definition comproatm ::
  "hdr \<Rightarrow> int \<Rightarrow> int \<Rightarrow> int \<Rightarrow> int \<Rightarrow> real \<Rightarrow> real \<Rightarrow> real \<Rightarrow> real \<Rightarrow> real \<Rightarrow> real \<Rightarrow> int \<Rightarrow>
   real \<Rightarrow> (int \<Rightarrow> real) \<Rightarrow> (int \<Rightarrow> real) \<Rightarrow> (int \<Rightarrow> real) \<Rightarrow> (int \<Rightarrow> real) \<Rightarrow> (int \<Rightarrow> real) \<Rightarrow>
   (int \<Rightarrow> real) \<Rightarrow> (int \<Rightarrow> real) \<Rightarrow> (int \<Rightarrow> real) \<Rightarrow> (int \<Rightarrow> int) \<Rightarrow> (int \<Rightarrow> real) \<Rightarrow>
   real \<Rightarrow> real \<Rightarrow> real \<Rightarrow> int \<Rightarrow> int \<Rightarrow> real" where
  "comproatm h ip1 ip2 iaot1 iaot2 xts xtv xmus xmuv cosxfi raot550nm iband pres tpres aot550nm
     rolutt tsmax tsmin nbfic nbfi tts indts ttv xtsstep xtvstep xtvmin its itv =
     (let cscaa = - xmus * xmuv - cosxfi * sqrt (1 - xmus * xmus) * sqrt (1 - xmuv * xmuv);
          scaa = arccos cscaa * RAD2DEG h;
          itv_its_indx = itv * NSOLAR_ZEN_VALS h + its;
          itv_its_indx_1 = itv_its_indx + 1;
          itv1_its_indx = itv_its_indx + NSOLAR_ZEN_VALS h;
          itv1_its_indx_1 = itv1_its_indx + 1;
          nbficl = [nbfic itv_its_indx, nbfic itv_its_indx_1, nbfic itv1_its_indx,
                    nbfic itv1_its_indx_1];
          nbfil = [nbfi itv_its_indx, nbfi itv_its_indx_1, nbfi itv1_its_indx,
                   nbfi itv1_its_indx_1];
          xtsmax = [tsmax itv_its_indx, tsmax itv_its_indx_1, tsmax itv1_its_indx,
                    tsmax itv1_its_indx_1];
          xtsmin = [tsmin itv_its_indx, tsmin itv_its_indx_1, tsmin itv1_its_indx,
                    tsmin itv1_its_indx_1];
          iband_indx = iband * NPRES_VALS h * NAOTxNSOLAR_VALS h;
          ip1_indx = ip1 * NAOTxNSOLAR_VALS h;
          ip2_indx = ip2 * NAOTxNSOLAR_VALS h;
          iaot1_indx = iaot1 * NSOLAR_VALS h;
          iaot2_indx = iaot2 * NSOLAR_VALS h;
          t = fl32 (fl32 (tts (its + 1) - xts) / fl32 (tts (its + 1) - tts its));
          u = fl32 (fl32 (ttv itv1_its_indx - xtv) / fl32 (ttv itv1_its_indx - ttv itv_its_indx));
          iband_ip_iaot_indx = iband_indx + ip1_indx + iaot1_indx;
          roiaot1 = interp_refl_using_scat_angle its itv xtsmax xtsmin scaa nbficl nbfil indts
                      rolutt iband_ip_iaot_indx t u;
          iband_ip_iaot_indx = iband_indx + ip1_indx + iaot2_indx;
          roiaot2 = interp_refl_using_scat_angle its itv xtsmax xtsmin scaa nbficl nbfil indts
                      rolutt iband_ip_iaot_indx t u;
          deltaaot = deltaaot_log raot550nm iaot1 iaot2;
          rop1 = fl32 (roiaot1 + fl32 (fl32 (roiaot2 - roiaot1) * deltaaot));
          iband_ip_iaot_indx = iband_indx + ip2_indx + iaot1_indx;
          roiaot1 = interp_refl_using_scat_angle its itv xtsmax xtsmin scaa nbficl nbfil indts
                      rolutt iband_ip_iaot_indx t u;
          iband_ip_iaot_indx = iband_indx + ip2_indx + iaot2_indx;
          roiaot2 = interp_refl_using_scat_angle its itv xtsmax xtsmin scaa nbficl nbfil indts
                      rolutt iband_ip_iaot_indx t u;
          rop2 = fl32 (roiaot1 + fl32 (fl32 (roiaot2 - roiaot1) * deltaaot));
          dpres = fl32 (fl32 (pres - tpres ip1) / fl32 (tpres ip2 - tpres ip1))
      in fl32 (rop1 + fl32 (fl32 (rop2 - rop1) * dpres)))"

subsection \<open>Single-corner values of the composers\<close>

text \<open>
  The value of \<^verbatim>\<open>satm1\<close> (or \<^verbatim>\<open>satm2\<close>) in \<^verbatim>\<open>compsalb\<close> for the pressure index \<open>ip\<close>:
  the spherical albedo at that single pressure corner, blended over the AOT bracket.
\<close>

definition salb_at_pres ::
  "hdr \<Rightarrow> int \<Rightarrow> int \<Rightarrow> int \<Rightarrow> real \<Rightarrow> int \<Rightarrow> (int \<Rightarrow> real) \<Rightarrow> (int \<Rightarrow> real) \<Rightarrow> real" where
  "salb_at_pres h ip iaot1 iaot2 raot550nm iband aot550nm sphalbt =
     (let deltaaot = frac32 raot550nm (aot550nm iaot1) (aot550nm iaot2);
          xtiaot1 = sphalbt (iband * NPRES_VALS h * NAOT_VALS h + ip * NAOT_VALS h + iaot1);
          xtiaot2 = sphalbt (iband * NPRES_VALS h * NAOT_VALS h + ip * NAOT_VALS h + iaot2)
      in lerp32 xtiaot1 xtiaot2 deltaaot)"

text \<open>
  The value of \<^verbatim>\<open>xtts1\<close> (or \<^verbatim>\<open>xtts2\<close>) in \<^verbatim>\<open>comptrans\<close> for the pressure index \<open>ip\<close>
  and the angle index \<open>its\<close>.
\<close>

definition trans_at_pres ::
  "hdr \<Rightarrow> int \<Rightarrow> int \<Rightarrow> int \<Rightarrow> real \<Rightarrow> real \<Rightarrow> int \<Rightarrow> (int \<Rightarrow> real) \<Rightarrow> (int \<Rightarrow> real) \<Rightarrow>
   (int \<Rightarrow> real) \<Rightarrow> int \<Rightarrow> real" where
  "trans_at_pres h ip iaot1 iaot2 xts raot550nm iband aot550nm transt tts its =
     (let base = iband * NPRES_VALS h * NAOTxNSUNANGLE_VALS h + ip * NAOTxNSUNANGLE_VALS h;
          xmts = fl32 (fl64 (fl32 (xts - tts its) * 0.25));
          xtiaot1 = lerp32 (transt (base + iaot1 * NSUNANGLE_VALS h + its))
                      (transt (base + iaot1 * NSUNANGLE_VALS h + its + 1)) xmts;
          xtiaot2 = lerp32 (transt (base + iaot2 * NSUNANGLE_VALS h + its))
                      (transt (base + iaot2 * NSUNANGLE_VALS h + its + 1)) xmts;
          deltaaot = frac32 raot550nm (aot550nm iaot1) (aot550nm iaot2)
      in lerp32 xtiaot1 xtiaot2 deltaaot)"

text \<open>
  The value that \<^verbatim>\<open>comproatm\<close> obtains from \<^verbatim>\<open>interp_refl_using_scat_angle\<close> for the
  pressure index \<open>ip\<close> and the AOT index \<open>iaot\<close>.
\<close>

definition refl_at ::
  "hdr \<Rightarrow> int \<Rightarrow> int \<Rightarrow> real \<Rightarrow> real \<Rightarrow> real \<Rightarrow> real \<Rightarrow> real \<Rightarrow> int \<Rightarrow> (int \<Rightarrow> real) \<Rightarrow>
   (int \<Rightarrow> real) \<Rightarrow> (int \<Rightarrow> real) \<Rightarrow> (int \<Rightarrow> real) \<Rightarrow> (int \<Rightarrow> real) \<Rightarrow> (int \<Rightarrow> real) \<Rightarrow>
   (int \<Rightarrow> int) \<Rightarrow> (int \<Rightarrow> real) \<Rightarrow> int \<Rightarrow> int \<Rightarrow> real" where
  "refl_at h ip iaot xts xtv xmus xmuv cosxfi iband rolutt tsmax tsmin nbfic nbfi tts indts ttv
     its itv =
     (let cscaa = - xmus * xmuv - cosxfi * sqrt (1 - xmus * xmus) * sqrt (1 - xmuv * xmuv);
          scaa = arccos cscaa * RAD2DEG h;
          itv_its_indx = itv * NSOLAR_ZEN_VALS h + its;
          itv_its_indx_1 = itv_its_indx + 1;
          itv1_its_indx = itv_its_indx + NSOLAR_ZEN_VALS h;
          itv1_its_indx_1 = itv1_its_indx + 1;
          nbficl = [nbfic itv_its_indx, nbfic itv_its_indx_1, nbfic itv1_its_indx,
                    nbfic itv1_its_indx_1];
          nbfil = [nbfi itv_its_indx, nbfi itv_its_indx_1, nbfi itv1_its_indx,
                   nbfi itv1_its_indx_1];
          xtsmax = [tsmax itv_its_indx, tsmax itv_its_indx_1, tsmax itv1_its_indx,
                    tsmax itv1_its_indx_1];
          xtsmin = [tsmin itv_its_indx, tsmin itv_its_indx_1, tsmin itv1_its_indx,
                    tsmin itv1_its_indx_1];
          t = fl32 (fl32 (tts (its + 1) - xts) / fl32 (tts (its + 1) - tts its));
          u = fl32 (fl32 (ttv itv1_its_indx - xtv) / fl32 (ttv itv1_its_indx - ttv itv_its_indx))
      in interp_refl_using_scat_angle its itv xtsmax xtsmin scaa nbficl nbfil indts rolutt
           (iband * NPRES_VALS h * NAOTxNSOLAR_VALS h + ip * NAOTxNSOLAR_VALS h +
            iaot * NSOLAR_VALS h) t u)"

text \<open>
  The value of \<^verbatim>\<open>rop1\<close> (or \<^verbatim>\<open>rop2\<close>) in \<^verbatim>\<open>comproatm\<close> for the pressure index \<open>ip\<close>:
  the reflectance at that single pressure corner, blended in log space over the AOT
  bracket.
\<close>

definition roatm_at_pres ::
  "hdr \<Rightarrow> int \<Rightarrow> int \<Rightarrow> int \<Rightarrow> real \<Rightarrow> real \<Rightarrow> real \<Rightarrow> real \<Rightarrow> real \<Rightarrow> real \<Rightarrow> int \<Rightarrow>
   (int \<Rightarrow> real) \<Rightarrow> (int \<Rightarrow> real) \<Rightarrow> (int \<Rightarrow> real) \<Rightarrow> (int \<Rightarrow> real) \<Rightarrow> (int \<Rightarrow> real) \<Rightarrow>
   (int \<Rightarrow> real) \<Rightarrow> (int \<Rightarrow> int) \<Rightarrow> (int \<Rightarrow> real) \<Rightarrow> int \<Rightarrow> int \<Rightarrow> real" where
  "roatm_at_pres h ip iaot1 iaot2 xts xtv xmus xmuv cosxfi raot550nm iband rolutt tsmax tsmin
     nbfic nbfi tts indts ttv its itv =
     (let roiaot1 = refl_at h ip iaot1 xts xtv xmus xmuv cosxfi iband rolutt tsmax tsmin nbfic
                      nbfi tts indts ttv its itv;
          roiaot2 = refl_at h ip iaot2 xts xtv xmus xmuv cosxfi iband rolutt tsmax tsmin nbfic
                      nbfi tts indts ttv its itv;
          deltaaot = deltaaot_log raot550nm iaot1 iaot2
      in lerp32 roiaot1 roiaot2 deltaaot)"


subsection \<open>\<^verbatim>\<open>atmcorlamb2\<close>: the full-inversion solver\<close>

text \<open>The arguments of \<^verbatim>\<open>atmcorlamb2\<close> that are read, and the values it stores on success.\<close>

record atmcor_in =
  sat :: Sat_t
  xts :: real
  xtv :: real
  xmus :: real
  xmuv :: real
  xfi :: real
  cosxfi :: real
  raot550nm :: real
  iband :: int
  pres :: real
  tpres :: "int \<Rightarrow> real"
  aot550nm :: "int \<Rightarrow> real"
  rolutt :: "int \<Rightarrow> real"
  transt :: "int \<Rightarrow> real"
  xtsstep :: real
  xtsmin :: real
  xtvstep :: real
  xtvmin :: real
  sphalbt :: "int \<Rightarrow> real"
  normext :: "int \<Rightarrow> real"
  tsmax :: "int \<Rightarrow> real"
  tsmin :: "int \<Rightarrow> real"
  nbfic :: "int \<Rightarrow> real"
  nbfi :: "int \<Rightarrow> real"
  tts :: "int \<Rightarrow> real"
  indts :: "int \<Rightarrow> int"
  ttv :: "int \<Rightarrow> real"
  uoz :: real
  uwv :: real
  tauray :: "int \<Rightarrow> real"
  ogtransa1 :: "int \<Rightarrow> real"
  ogtransb0 :: "int \<Rightarrow> real"
  ogtransb1 :: "int \<Rightarrow> real"
  wvtransa :: "int \<Rightarrow> real"
  wvtransb :: "int \<Rightarrow> real"
  oztransa :: "int \<Rightarrow> real"
  rotoa :: real
  eps :: real

record atmcor_out =
  roslamb :: "real option"
  tgo :: real
  roatm :: real
  ttatmg :: real
  satm :: real
  xrorayp :: real

text \<open>The local \<^verbatim>\<open>mraot550nm\<close>: the AOT value that every later step uses.\<close>

definition mraot550nm_of :: "hdr \<Rightarrow> atmcor_in \<Rightarrow> real" where
  "mraot550nm_of h a =
     (let indx = iband a * NPRES_VALS h * NAOT_VALS h + 3
      in modify_aot h (sat a) (eps a) (iband a) (raot550nm a) (normext a indx))"

text \<open>The loop over \<^verbatim>\<open>ip = 0 .. NPRES_VALS-2\<close> that leaves \<^verbatim>\<open>ip1\<close>.\<close>

definition ip1_scan :: "hdr \<Rightarrow> real \<Rightarrow> (int \<Rightarrow> real) \<Rightarrow> int" where
  "ip1_scan h p tp = fold (\<lambda>ip ip1. if p < tp ip then ip else ip1) [0..NPRES_VALS h - 2] 0"

text \<open>The loop over \<^verbatim>\<open>iaot = 0 .. 20\<close> that leaves \<^verbatim>\<open>iaot1\<close>.\<close>

definition iaot1_scan :: "real \<Rightarrow> (int \<Rightarrow> real) \<Rightarrow> int" where
  "iaot1_scan q tab = fold (\<lambda>iaot iaot1. if q > tab iaot then iaot else iaot1) [0..20] 0"

definition itv_of :: "atmcor_in \<Rightarrow> int" where
  "itv_of a = view_index (xtv a) (xtvmin a) (xtvstep a)"

definition its_of :: "atmcor_in \<Rightarrow> int" where
  "its_of a = sun_index (xts a) (xtsmin a) (xtsstep a)"

text \<open>
  \<open>xtts0\<close> and \<open>xttv0\<close> are the contents of the uninitialised locals \<^verbatim>\<open>xtts\<close> and
  \<^verbatim>\<open>xttv\<close> when \<^verbatim>\<open>comptrans\<close> is called; they stay when \<^verbatim>\<open>comptrans\<close> stores nothing.
\<close>

definition atmcorlamb2 :: "hdr \<Rightarrow> real \<Rightarrow> real \<Rightarrow> atmcor_in \<Rightarrow> error + atmcor_out" where
  "atmcorlamb2 h xtts0 xttv0 a =
     (let mraot550nm = mraot550nm_of h a;
          ip1 = ip1_scan h (pres a) (tpres a);
          ip2 = ip1 + 1;
          iaot1 = iaot1_scan mraot550nm (aot550nm a);
          iaot2 = iaot1 + 1;
          itv = itv_of a;
          its = its_of a
      in if its > 19 then Inl (ERROR ''Solar zenith (xts) is too large'' (xts a))
         else
           (let roatm = comproatm h ip1 ip2 iaot1 iaot2 (xts a) (xtv a) (xmus a) (xmuv a)
                          (cosxfi a) mraot550nm (iband a) (pres a) (tpres a) (aot550nm a)
                          (rolutt a) (tsmax a) (tsmin a) (nbfic a) (nbfi a) (tts a) (indts a)
                          (ttv a) (xtsstep a) (xtvstep a) (xtvmin a) its itv;
                xtts = (case comptrans h ip1 ip2 iaot1 iaot2 (xts a) mraot550nm (iband a)
                               (pres a) (tpres a) (aot550nm a) (transt a) (xtsstep a)
                               (xtsmin a) (tts a)
                        of Inl e \<Rightarrow> xtts0 | Inr v \<Rightarrow> v);
                xttv = (case comptrans h ip1 ip2 iaot1 iaot2 (xtv a) mraot550nm (iband a)
                               (pres a) (tpres a) (aot550nm a) (transt a) (xtvstep a)
                               (xtvmin a) (tts a)
                        of Inl e \<Rightarrow> xttv0 | Inr v \<Rightarrow> v);
                ttatm = xtts * xttv;
                satm = compsalb h ip1 ip2 iaot1 iaot2 mraot550nm (iband a) (pres a) (tpres a)
                         (aot550nm a) (sphalbt a) (normext a);
                atm_pres = pres a * ONE_DIV_ATMOS_PRES_0 h;
                (tgoz, tgwv, tgwvhalf, tgog) =
                   comptg (iband a) (xmus a) (xmuv a) (uoz a) (uwv a) atm_pres (ogtransa1 a)
                     (ogtransb0 a) (ogtransb1 a) (wvtransa a) (wvtransb a) (oztransa a);
                xtaur = tauray a (iband a) * atm_pres;
                xrorayp = local_chand h (xfi a) (xmuv a) (xmus a) xtaur;
                tgo = tgog * tgoz;
                roatm = (roatm - xrorayp) * tgwvhalf + xrorayp;
                ttatmg = ttatm * tgwv;
                roslamb = rotoa a / tgo - roatm;
                roslamb = fdiv roslamb (ttatmg + satm * roslamb)
            in Inr \<lparr>roslamb = roslamb, tgo = tgo, roatm = roatm, ttatmg = ttatmg,
                     satm = satm, xrorayp = xrorayp\<rparr>))"

subsection \<open>The intermediate values of \<^verbatim>\<open>atmcorlamb2\<close>\<close>

text \<open>
  The values held by the locals of \<^verbatim>\<open>atmcorlamb2\<close> before the final composition, as
  functions of the arguments: the interpolated reflectance (\<^verbatim>\<open>*roatm\<close> after
  \<^verbatim>\<open>comproatm\<close>), the results of the two calls of \<^verbatim>\<open>comptrans\<close>, the spherical albedo,
  the gas transmissions and the Rayleigh reflectance.
\<close>

definition roatm_lut :: "hdr \<Rightarrow> atmcor_in \<Rightarrow> real" where
  "roatm_lut h a =
     (let q = mraot550nm_of h a;
          ip1 = ip1_scan h (pres a) (tpres a);
          iaot1 = iaot1_scan q (aot550nm a)
      in comproatm h ip1 (ip1 + 1) iaot1 (iaot1 + 1) (xts a) (xtv a) (xmus a) (xmuv a)
           (cosxfi a) q (iband a) (pres a) (tpres a) (aot550nm a) (rolutt a) (tsmax a)
           (tsmin a) (nbfic a) (nbfi a) (tts a) (indts a) (ttv a) (xtsstep a) (xtvstep a)
           (xtvmin a) (its_of a) (itv_of a))"

definition trans_solar :: "hdr \<Rightarrow> atmcor_in \<Rightarrow> error + real" where
  "trans_solar h a =
     (let q = mraot550nm_of h a;
          ip1 = ip1_scan h (pres a) (tpres a);
          iaot1 = iaot1_scan q (aot550nm a)
      in comptrans h ip1 (ip1 + 1) iaot1 (iaot1 + 1) (xts a) q (iband a) (pres a) (tpres a)
           (aot550nm a) (transt a) (xtsstep a) (xtsmin a) (tts a))"

definition trans_view :: "hdr \<Rightarrow> atmcor_in \<Rightarrow> error + real" where
  "trans_view h a =
     (let q = mraot550nm_of h a;
          ip1 = ip1_scan h (pres a) (tpres a);
          iaot1 = iaot1_scan q (aot550nm a)
      in comptrans h ip1 (ip1 + 1) iaot1 (iaot1 + 1) (xtv a) q (iband a) (pres a) (tpres a)
           (aot550nm a) (transt a) (xtvstep a) (xtvmin a) (tts a))"

text \<open>
  The content of an output variable after a call of \<^verbatim>\<open>comptrans\<close>: the stored value, or
  the previous content \<open>old\<close> when nothing was stored.
\<close>

definition stored :: "real \<Rightarrow> error + real \<Rightarrow> real" where
  "stored old r = (case r of Inl e \<Rightarrow> old | Inr v \<Rightarrow> v)"

definition satm_lut :: "hdr \<Rightarrow> atmcor_in \<Rightarrow> real" where
  "satm_lut h a =
     (let q = mraot550nm_of h a;
          ip1 = ip1_scan h (pres a) (tpres a);
          iaot1 = iaot1_scan q (aot550nm a)
      in compsalb h ip1 (ip1 + 1) iaot1 (iaot1 + 1) q (iband a) (pres a) (tpres a)
           (aot550nm a) (sphalbt a) (normext a))"

definition gas_of :: "hdr \<Rightarrow> atmcor_in \<Rightarrow> real \<times> real \<times> real \<times> real" where
  "gas_of h a =
     comptg (iband a) (xmus a) (xmuv a) (uoz a) (uwv a) (pres a * ONE_DIV_ATMOS_PRES_0 h)
       (ogtransa1 a) (ogtransb0 a) (ogtransb1 a) (wvtransa a) (wvtransb a) (oztransa a)"

definition rorayp_of :: "hdr \<Rightarrow> atmcor_in \<Rightarrow> real" where
  "rorayp_of h a =
     local_chand h (xfi a) (xmuv a) (xmus a)
       (tauray a (iband a) * (pres a * ONE_DIV_ATMOS_PRES_0 h))"


subsection \<open>Example inputs\<close>

text \<open>
  A header with seven pressure levels and twenty-two AOT levels, the AOT grid whose
  logarithms are cached in \<open>logaot550nm\<close>, a descending pressure grid, and a pixel with
  the sun at the zenith seen from the nadir. The LUTs of the example pixel are zero.
  The entries of the AOT grid are written as decimal numbers.
\<close>

definition hdr_ex :: hdr where
  "hdr_ex = \<lparr>NPRES_VALS = 7, NAOT_VALS = 22, NSOLAR_VALS = 8000, NSUNANGLE_VALS = 22,
             NSOLAR_ZEN_VALS = 22, NAOTxNSOLAR_VALS = 176000, NAOTxNSUNANGLE_VALS = 484,
             DNL_BAND7 = 6, DNS_BAND12 = 10, ONE_DIV_ATMOS_PRES_0 = 1 / 1013,
             DEG2RAD = pi / 180, RAD2DEG = 180 / pi\<rparr>"

definition aot_ex :: "int \<Rightarrow> real" where
  "aot_ex i = [0.01, 0.05, 0.10, 0.15, 0.20, 0.30, 0.40, 0.60, 0.80, 1.00, 1.20, 1.40, 1.60,
               1.80, 2.00, 2.30, 2.60, 3.00, 3.50, 4.00, 4.50, 5.00] ! nat i"

definition tpres_ex :: "int \<Rightarrow> real" where
  "tpres_ex i = [1050, 1013, 900, 800, 700, 600, 500] ! nat i"

text \<open>
  LUTs: one that is zero everywhere, and one that holds \<open>c8\<close> in the cells of band 0,
  AOT index 8 and pressure indices 0 and 1 (offsets from \<open>8 * 8000\<close> and from
  \<open>176000 + 8 * 8000\<close>) and \<open>c\<close> elsewhere.
\<close>

definition zero_lut :: "int \<Rightarrow> real" where
  "zero_lut i = 0"


text \<open>
  A spherical albedo table that holds \<open>c0\<close> at pressure index 0 of band 0 (offsets
  below 22) and \<open>c1\<close> elsewhere.
\<close>

definition sphalbt_ex :: "real \<Rightarrow> real \<Rightarrow> int \<Rightarrow> real" where
  "sphalbt_ex c0 c1 i = (if i < 22 then c0 else c1)"

text \<open>
  The binary32 numbers nearest to 0.3 and to 0.05 (the values of the C constants
  \<^verbatim>\<open>0.3f\<close> and \<^verbatim>\<open>0.05f\<close>), to 80.1 and to 0.1.
\<close>

definition f32_0_3 :: real where
  "f32_0_3 = 10066330 / 33554432"

definition f32_0_05 :: real where
  "f32_0_05 = 13421773 / 268435456"

definition f32_80_1 :: real where
  "f32_80_1 = 10498867 / 131072"

definition f32_0_1 :: real where
  "f32_0_1 = 13421773 / 134217728"

definition px_ex :: atmcor_in where
  "px_ex = \<lparr>sat = SAT_LANDSAT_8, xts = 0, xtv = 0, xmus = 1, xmuv = 1, xfi = 0, cosxfi = 1,
            raot550nm = 1, iband = 0, pres = 1013, tpres = tpres_ex, aot550nm = aot_ex,
            rolutt = zero_lut, transt = zero_lut, xtsstep = 4, xtsmin = 0, xtvstep = 4,
            xtvmin = 0, sphalbt = zero_lut, normext = (\<lambda>i. 1), tsmax = (\<lambda>i. 180),
            tsmin = (\<lambda>i. 0), nbfic = (\<lambda>i. 3), nbfi = (\<lambda>i. 3), tts = (\<lambda>i. 4 * real_of_int i),
            indts = (\<lambda>i. 0), ttv = (\<lambda>i. 4 * real_of_int (i div 22)), uoz = 0, uwv = 0,
            tauray = (\<lambda>i. 0.1), ogtransa1 = (\<lambda>i. 0), ogtransb0 = (\<lambda>i. 0),
            ogtransb1 = (\<lambda>i. 0), wvtransa = (\<lambda>i. 0), wvtransb = (\<lambda>i. 1),
            oztransa = (\<lambda>i. 0), rotoa = 1, eps = - 1\<rparr>"


text \<open>
  A pixel with constant, nonzero LUTs and gas transmissions different from 1.
\<close>

definition px_ex2 :: atmcor_in where
  "px_ex2 = px_ex\<lparr>rolutt := (\<lambda>i. 1 / 8), transt := (\<lambda>i. 3 / 4), sphalbt := (\<lambda>i. 1 / 4),
                   uoz := 1, uwv := 1, tauray := (\<lambda>i. 1), ogtransa1 := (\<lambda>i. 1 / 100),
                   wvtransa := (\<lambda>i. 1 / 10), oztransa := (\<lambda>i. - 1 / 10), rotoa := 2\<rparr>"

section \<open>Properties\<close>

subsection \<open>Rounding\<close>

text \<open>
  \<open>round_even\<close> is odd and leaves integers unchanged; \<open>fl p\<close> leaves the numbers with a
  significand of \<open>p\<close> bits unchanged, returns only such numbers, and is odd.
\<close>

lemma round_even_of_int: "round_even (of_int n) = n"
  by (simp add: round_even_def)

lemma round_even_bounds: "\<lfloor>y\<rfloor> \<le> round_even y \<and> round_even y \<le> \<lfloor>y\<rfloor> + 1"
  by (simp add: round_even_def Let_def)

lemma round_even_neg: "round_even (- y) = - round_even y"
proof (cases "y \<in> \<int>")
  case True
  then obtain n where "y = of_int n" by (auto elim: Ints_cases)
  then show ?thesis
    using round_even_of_int[of n] round_even_of_int[of "- n"] by simp
next
  case False
  have ne: "y \<noteq> of_int \<lfloor>y\<rfloor>" using False by (metis Ints_of_int)
  then have f: "\<lfloor>- y\<rfloor> = - \<lfloor>y\<rfloor> - 1"
    by (simp add: floor_minus ceiling_altdef)
  have "of_int \<lfloor>y\<rfloor> \<le> y" by simp
  with ne have fr1: "0 < y - of_int \<lfloor>y\<rfloor>" by linarith
  have fr2: "y - of_int \<lfloor>y\<rfloor> < 1" by linarith
  note fr = fr1 fr2
  show ?thesis
    unfolding round_even_def Let_def f using fr
    by (auto simp: algebra_simps)
qed

lemma floor_log2_eq:
  assumes "0 < x" and "2 powr of_int e \<le> x" and "x < 2 powr (of_int e + 1)"
  shows "\<lfloor>log 2 x\<rfloor> = e"
proof -
  have a: "of_int e \<le> log 2 x" using assms by (simp add: le_log_iff)
  have b: "log 2 x < of_int e + 1" using assms by (simp add: log_less_iff)
  from a b show ?thesis by (simp add: floor_eq_iff)
qed

lemma floor_log2_bounds:
  assumes "0 < x"
  shows "2 powr of_int \<lfloor>log 2 x\<rfloor> \<le> x \<and> x < 2 powr (of_int \<lfloor>log 2 x\<rfloor> + 1)"
proof -
  have "of_int \<lfloor>log 2 x\<rfloor> \<le> log 2 x" by simp
  then have a: "2 powr of_int \<lfloor>log 2 x\<rfloor> \<le> x"
    using assms le_log_iff[of 2 x "of_int \<lfloor>log 2 x\<rfloor>"] by simp
  have "log 2 x < of_int \<lfloor>log 2 x\<rfloor> + 1" by linarith
  then have b: "x < 2 powr (of_int \<lfloor>log 2 x\<rfloor> + 1)"
    using assms log_less_iff[of 2 x "of_int \<lfloor>log 2 x\<rfloor> + 1"] by simp
  from a b show ?thesis by simp
qed

lemma fl_zero: "fl p 0 = 0"
  by (simp add: fl_def)

lemma fl_neg: "fl p (- x) = - fl p x"
  by (simp add: fl_def Let_def round_even_neg)

lemma fl_at:
  assumes "0 < x" and "2 powr of_int e \<le> x" and "x < 2 powr (of_int e + 1)"
  shows "fl p x = of_int (round_even (x / 2 powr (of_int e - real p + 1))) *
                  2 powr (of_int e - real p + 1)"
proof -
  have "\<lfloor>log 2 \<bar>x\<bar>\<rfloor> = e" using floor_log2_eq[OF assms] assms(1) by simp
  then show ?thesis using assms(1) by (simp add: fl_def Let_def)
qed

lemma fl_exact_pos:
  assumes x: "x = of_int n * 2 powr of_int k" and n0: "0 < n" and np: "n < 2 ^ p"
  shows "fl p x = x"
proof -
  define j where "j = \<lfloor>log 2 (of_int n)\<rfloor>"
  have npos: "0 < (of_int n :: real)" using n0 by simp
  from floor_log2_bounds[OF npos]
  have jl: "2 powr of_int j \<le> (of_int n :: real)"
    and ju: "(of_int n :: real) < 2 powr (of_int j + 1)"
    unfolding j_def by simp_all
  have "1 \<le> (of_int n :: real)" using n0 by simp
  then have "0 \<le> log 2 (of_int n)" by simp
  then have j0: "0 \<le> j" unfolding j_def by simp
  have "(of_int n :: real) < of_int (2 ^ p)" using np by (simp only: of_int_less_iff)
  then have "(of_int n :: real) < 2 ^ p" by simp
  with jl have "2 powr of_int j < (2::real) ^ p" by linarith
  then have "2 powr of_int j < 2 powr real p" by (simp add: powr_realpow)
  then have "of_int j < real p" by simp
  then have jp: "j < int p" by linarith
  define d where "d = nat (int p - 1 - j)"
  have dd: "real d = real p - 1 - of_int j" unfolding d_def using jp by simp
  have k2: "0 < (2::real) powr of_int k" by simp
  have xpos: "0 < x" unfolding x using npos k2 by simp
  have xl: "2 powr of_int (j + k) \<le> x"
    unfolding x using jl k2 by (simp add: powr_add)
  have xu: "x < 2 powr (of_int (j + k) + 1)"
  proof -
    have "(of_int n :: real) * 2 powr of_int k < 2 powr (of_int j + 1) * 2 powr of_int k"
      using ju k2 by simp
    also have "\<dots> = (2::real) powr (of_int (j + k) + 1)"
      by (simp add: powr_add[symmetric] algebra_simps)
    finally show ?thesis unfolding x .
  qed
  have u: "2 powr (of_int (j + k) - real p + 1) = 2 powr of_int k / 2 powr real d"
    unfolding dd by (simp add: powr_diff[symmetric] algebra_simps)
  have q: "x / (2 powr of_int k / 2 powr real d) = of_int (n * 2 ^ d)"
    unfolding x by (simp add: powr_realpow)
  have "fl p x = of_int (n * 2 ^ d) * (2 powr of_int k / 2 powr real d)"
    unfolding fl_at[OF xpos xl xu] u q round_even_of_int ..
  also have "\<dots> = x" unfolding x by (simp add: powr_realpow)
  finally show ?thesis .
qed

lemma fl_exact:
  assumes x: "x = of_int n * 2 powr of_int k" and np: "\<bar>n\<bar> < 2 ^ p"
  shows "fl p x = x"
proof (cases "n = 0")
  case True
  then show ?thesis using x by (simp add: fl_zero)
next
  case False
  show ?thesis
  proof (cases "0 < n")
    case True
    then show ?thesis using fl_exact_pos[OF x True] np by simp
  next
    case neg: False
    with False have n: "0 < - n" "- n < 2 ^ p" using np by simp_all
    have "- x = of_int (- n) * 2 powr of_int k" using x by simp
    from fl_exact_pos[OF this n] have "fl p (- x) = - x" .
    then show ?thesis by (simp add: fl_neg)
  qed
qed

lemma fl_repr_pos:
  assumes p: "1 \<le> p" and xpos: "0 < x"
  shows "\<exists>n k. fl p x = of_int n * 2 powr of_int k \<and> 0 < n \<and> n < 2 ^ p"
proof -
  define e where "e = \<lfloor>log 2 x\<rfloor>"
  define k where "k = e - int p + 1"
  define y where "y = x / 2 powr of_int k"
  define N where "N = round_even y"
  from floor_log2_bounds[OF xpos]
  have xl: "2 powr of_int e \<le> x" and xu: "x < 2 powr (of_int e + 1)" unfolding e_def by simp_all
  have kk: "of_int e - real p + 1 = of_int k" unfolding k_def by simp
  have f: "fl p x = of_int N * 2 powr of_int k"
    unfolding fl_at[OF xpos xl xu] kk N_def y_def ..
  have k2: "0 < (2::real) powr of_int k" by simp
  have pm: "real (p - 1) = real p - 1" using p by simp
  have "2 powr of_int e / 2 powr of_int k \<le> y" unfolding y_def using xl k2 by (simp add: divide_right_mono)
  then have "2 powr (real p - 1) \<le> y"
    unfolding k_def by (simp add: powr_diff[symmetric] algebra_simps)
  moreover have "(2::real) ^ (p - 1) = 2 powr (real p - 1)"
    unfolding pm[symmetric] by (simp add: powr_realpow)
  ultimately have yl: "2 ^ (p - 1) \<le> y" by simp
  have "y < 2 powr (of_int e + 1) / 2 powr of_int k" unfolding y_def using xu k2 by (simp add: divide_strict_right_mono)
  then have yu: "y < 2 ^ p"
    unfolding k_def by (simp add: powr_diff[symmetric] powr_realpow[symmetric] algebra_simps)
  have fl1: "2 ^ (p - 1) \<le> \<lfloor>y\<rfloor>"
  proof -
    have "of_int (2 ^ (p - 1)) \<le> y" using yl by simp
    then show ?thesis by (simp only: le_floor_iff)
  qed
  have fl2: "\<lfloor>y\<rfloor> < 2 ^ p"
  proof -
    have "y < of_int (2 ^ p)" using yu by simp
    then show ?thesis by (simp only: floor_less_iff)
  qed
  have Nl: "2 ^ (p - 1) \<le> N" and Nu: "N \<le> 2 ^ p"
    using round_even_bounds[of y] fl1 fl2 unfolding N_def by linarith+
  have Npos: "0 < N"
  proof -
    have "(0::int) < 2 ^ (p - 1)" by simp
    with Nl show ?thesis by linarith
  qed
  show ?thesis
  proof (cases "N < 2 ^ p")
    case True
    with f Npos show ?thesis by blast
  next
    case False
    with Nu have N: "N = 2 ^ p" by simp
    have "fl p x = of_int 1 * 2 powr of_int (k + int p)"
      unfolding f N by (simp add: powr_add powr_realpow)
    moreover have "(1::int) < 2 ^ p" using p by simp
    ultimately show ?thesis by (metis zero_less_one)
  qed
qed

lemma fl_repr:
  assumes p: "1 \<le> p"
  shows "\<exists>n k. fl p x = of_int n * 2 powr of_int k \<and> \<bar>n\<bar> < 2 ^ p"
proof (cases "x = 0")
  case True
  have "fl p x = of_int 0 * 2 powr of_int 0" using True by (simp add: fl_zero)
  moreover have "\<bar>0::int\<bar> < 2 ^ p" by simp
  ultimately show ?thesis by blast
next
  case False
  show ?thesis
  proof (cases "0 < x")
    case True
    from fl_repr_pos[OF p True] obtain n k where
      "fl p x = of_int n * 2 powr of_int k" "0 < n" "n < 2 ^ p" by blast
    then have "fl p x = of_int n * 2 powr of_int k \<and> \<bar>n\<bar> < 2 ^ p" by simp
    then show ?thesis by blast
  next
    case neg: False
    with False have "0 < - x" by simp
    from fl_repr_pos[OF p this] obtain n k where
      nk: "fl p (- x) = of_int n * 2 powr of_int k" "0 < n" "n < 2 ^ p" by blast
    then have "fl p x = of_int (- n) * 2 powr of_int k \<and> \<bar>- n\<bar> < 2 ^ p"
      by (simp add: fl_neg)
    then show ?thesis by blast
  qed
qed

lemma fl_idem:
  assumes "1 \<le> p"
  shows "fl p (fl p x) = fl p x"
proof -
  from fl_repr[OF assms, of x] obtain n k where
    "fl p x = of_int n * 2 powr of_int k" "\<bar>n\<bar> < 2 ^ p" by blast
  then show ?thesis by (rule fl_exact)
qed


lemma fl_eq_0_iff:
  assumes p: "1 \<le> p"
  shows "(fl p x = 0) = (x = 0)"
proof (cases "x = 0")
  case True
  then show ?thesis by (simp add: fl_zero)
next
  case False
  have pos: "\<And>z. 0 < z \<Longrightarrow> 0 < fl p z"
  proof -
    fix z :: real assume "0 < z"
    from fl_repr_pos[OF p this] obtain n k where
      "fl p z = of_int n * 2 powr of_int k" "0 < n" by blast
    then show "0 < fl p z" by simp
  qed
  show ?thesis
  proof (cases "0 < x")
    case True
    from pos[OF True] False show ?thesis by simp
  next
    case neg: False
    with False have "0 < - x" by simp
    from pos[OF this] False show ?thesis by (simp add: fl_neg)
  qed
qed

lemma fl_one: "1 \<le> p \<Longrightarrow> fl p 1 = 1"
proof -
  assume p: "1 \<le> p"
  have "(1::real) = of_int 1 * 2 powr of_int 0" by simp
  moreover have "\<bar>1::int\<bar> < 2 ^ p" using p by simp
  ultimately show ?thesis by (rule fl_exact)
qed

lemma fl32_exact_mult:
  assumes "x = of_int n * 2 ^ k" and "\<bar>n\<bar> < 16777216"
  shows "fl32 x = x"
proof -
  have "x = of_int n * 2 powr of_int (int k)" using assms(1) by (simp add: powr_realpow)
  moreover have "\<bar>n\<bar> < 2 ^ 24" using assms(2) by simp
  ultimately show ?thesis unfolding fl32_def by (rule fl_exact)
qed

lemma fl32_exact_div:
  assumes "x = of_int n / 2 ^ k" and "\<bar>n\<bar> < 16777216"
  shows "fl32 x = x"
proof -
  have "(2::real) powr of_int (- int k) = 1 / 2 ^ k"
    by (simp add: powr_minus powr_realpow divide_inverse)
  then have "x = of_int n * 2 powr of_int (- int k)" using assms(1) by simp
  moreover have "\<bar>n\<bar> < 2 ^ 24" using assms(2) by simp
  ultimately show ?thesis unfolding fl32_def by (rule fl_exact)
qed

lemma fl32_at_up:
  assumes "2 ^ m \<le> x" and "x < 2 * 2 ^ m"
  shows "fl32 x = of_int (round_even (x * 8388608 / 2 ^ m)) * 2 ^ m / 8388608"
proof -
  have xpos: "0 < x"
  proof -
    have "(0::real) < 2 ^ m" by simp
    with assms(1) show ?thesis by linarith
  qed
  have a: "2 powr of_int (int m) \<le> x" using assms(1) by (simp add: powr_realpow)
  have b: "x < 2 powr (of_int (int m) + 1)" using assms(2) by (simp add: powr_add powr_realpow)
  have u: "(2::real) powr (of_int (int m) - real 24 + 1) = 2 ^ m / 8388608"
    by (simp add: powr_diff powr_realpow)
  show ?thesis
    unfolding fl32_def fl_at[OF xpos a b] u by simp
qed

lemma fl32_at_dn:
  assumes "1 \<le> x * 2 ^ m" and "x * 2 ^ m < 2"
  shows "fl32 x = of_int (round_even (x * 8388608 * 2 ^ m)) / (8388608 * 2 ^ m)"
proof -
  have p2: "(0::real) < 2 ^ m" by simp
  have xpos: "0 < x"
  proof (rule ccontr)
    assume "\<not> 0 < x"
    then have "x * 2 ^ m \<le> 0" using p2 by (simp add: mult_le_0_iff)
    with assms(1) show False by linarith
  qed
  have e: "(2::real) powr of_int (- int m) = 1 / 2 ^ m"
    by (simp add: powr_minus powr_realpow divide_inverse)
  have a: "2 powr of_int (- int m) \<le> x"
    unfolding e using assms(1) p2 by (simp add: field_simps)
  have b: "x < 2 powr (of_int (- int m) + 1)"
  proof -
    have "(2::real) powr (of_int (- int m) + 1) = 2 powr of_int (- int m) * 2 powr 1"
      by (rule powr_add)
    then have "(2::real) powr (of_int (- int m) + 1) = 2 / 2 ^ m"
      unfolding e by simp
    then have r: "(2::real) powr (of_int (- int m) + 1) = 2 / 2 ^ m" .
    have "x < 2 / 2 ^ m" using assms(2) p2 by (simp add: pos_less_divide_eq)
    then show ?thesis unfolding r .
  qed
  have u: "(2::real) powr (of_int (- int m) - real 24 + 1) = 1 / (8388608 * 2 ^ m)"
  proof -
    have s: "of_int (- int m) - real 24 + 1 = of_int (- int m) + (- 23 :: real)" by simp
    have c: "(2::real) powr (- 23) = 1 / 8388608"
    proof -
      have "(2::real) powr (- 23) = 1 / 2 powr 23" by (rule powr_minus_divide)
      also have "\<dots> = 1 / 8388608" by simp
      finally show ?thesis .
    qed
    have "(2::real) powr (of_int (- int m) - real 24 + 1) = 2 powr of_int (- int m) * 2 powr (- 23)"
      unfolding s by (rule powr_add)
    also have "\<dots> = 1 / 2 ^ m * (1 / 8388608)" unfolding e c ..
    also have "\<dots> = 1 / (8388608 * 2 ^ m)" by simp
    finally show ?thesis .
  qed
  show ?thesis
    unfolding fl32_def fl_at[OF xpos a b] u by (simp add: mult.assoc)
qed

lemma fl32_zero: "fl32 0 = 0"
  by (simp add: fl32_def fl_zero)

lemma fl32_one: "fl32 1 = 1"
  by (simp add: fl32_def fl_one)

lemma fl32_neg: "fl32 (- x) = - fl32 x"
  by (simp add: fl32_def fl_neg)

lemma fl32_idem: "fl32 (fl32 x) = fl32 x"
  by (simp add: fl32_def fl_idem)

lemma fl32_eq_0_iff: "(fl32 x = 0) = (x = 0)"
  by (simp add: fl32_def fl_eq_0_iff)






text \<open>
  The blend \<^verbatim>\<open>a + (b - a) * d\<close> at the fractions 0 and 1 and between equal values, and
  the fraction \<^verbatim>\<open>(x - lo) / (hi - lo)\<close> at the two ends.
\<close>

lemma lerp32_rounded: "fl32 (lerp32 a b d) = lerp32 a b d"
  by (simp add: lerp32_def fl32_idem)

lemma lerp32_0: "fl32 a = a \<Longrightarrow> lerp32 a b 0 = a"
  by (simp add: lerp32_def fl32_zero)

lemma lerp32_1: "lerp32 a b 1 = fl32 (a + fl32 (b - a))"
  by (simp add: lerp32_def fl32_idem)


lemma lerp32_same: "fl32 c = c \<Longrightarrow> lerp32 c c d = c"
  by (simp add: lerp32_def fl32_zero)

lemma frac32_lo: "frac32 lo lo hi = 0"
  by (simp add: frac32_def fl32_zero)

lemma frac32_hi: "hi \<noteq> lo \<Longrightarrow> frac32 hi lo hi = 1"
  by (simp add: frac32_def fl32_eq_0_iff fl32_one)

subsection \<open>The composers as blends of single-corner values\<close>

lemma compsalb_blend:
  "compsalb h ip1 ip2 i1 i2 q b p tp tab alb nx =
     lerp32 (salb_at_pres h ip1 i1 i2 q b tab alb) (salb_at_pres h ip2 i1 i2 q b tab alb)
       (frac32 p (tp ip1) (tp ip2))"
  by (simp add: compsalb_def salb_at_pres_def lerp32_def frac32_def Let_def)

lemma comptrans_blend:
  assumes "sun_index z zmin zstep = zi" and "zi \<le> 19"
  shows "comptrans h ip1 ip2 i1 i2 z q b p tp tab tr zstep zmin tt =
     Inr (lerp32 (trans_at_pres h ip1 i1 i2 z q b tab tr tt zi)
            (trans_at_pres h ip2 i1 i2 z q b tab tr tt zi) (frac32 p (tp ip1) (tp ip2)))"
  using assms by (simp add: comptrans_def trans_at_pres_def lerp32_def frac32_def Let_def)

lemma comptrans_early:
  assumes "19 < sun_index z zmin zstep"
  shows "comptrans h ip1 ip2 i1 i2 z q b p tp tab tr zstep zmin tt =
     Inl (ERROR ''Zenith angle (xts) is too large'' z)"
  using assms by (simp add: comptrans_def Let_def)

lemma comproatm_blend_pres:
  "comproatm h ip1 ip2 i1 i2 zs zv ms mv cf q b p tp tab rl smax smin nc nf tt ind tv ss vs
     vmin js jv =
     lerp32 (roatm_at_pres h ip1 i1 i2 zs zv ms mv cf q b rl smax smin nc nf tt ind tv js jv)
       (roatm_at_pres h ip2 i1 i2 zs zv ms mv cf q b rl smax smin nc nf tt ind tv js jv)
       (frac32 p (tp ip1) (tp ip2))"
  by (simp add: comproatm_def roatm_at_pres_def refl_at_def lerp32_def frac32_def Let_def)

lemma salb_at_pres_rounded:
  "fl32 (salb_at_pres h ip i1 i2 q b tab alb) = salb_at_pres h ip i1 i2 q b tab alb"
  by (simp add: salb_at_pres_def Let_def lerp32_rounded)

lemma trans_at_pres_rounded:
  "fl32 (trans_at_pres h ip i1 i2 z q b tab tr tt zi) = trans_at_pres h ip i1 i2 z q b tab tr tt zi"
  by (simp add: trans_at_pres_def Let_def lerp32_rounded)


lemma roatm_at_pres_rounded:
  "fl32 (roatm_at_pres h ip i1 i2 zs zv ms mv cf q b rl smax smin nc nf tt ind tv js jv) =
     roatm_at_pres h ip i1 i2 zs zv ms mv cf q b rl smax smin nc nf tt ind tv js jv"
  by (simp add: roatm_at_pres_def Let_def lerp32_rounded)

lemma int_cast_gt_iff_floor:
  assumes "0 \<le> n"
  shows "(n < int_cast x) = (n < \<lfloor>x\<rfloor>)"
proof (cases "0 \<le> x")
  case True
  then show ?thesis by (simp add: int_cast_def)
next
  case False
  then have "x < 0" by simp
  then have c: "\<lceil>x\<rceil> \<le> 0" and f: "\<lfloor>x\<rfloor> < 0" by simp_all
  have "int_cast x = \<lceil>x\<rceil>" using False by (simp add: int_cast_def)
  with assms c f show ?thesis by linarith
qed


lemma int_conv_gt_iff_floor:
  assumes "0 \<le> n" and "\<bar>x\<bar> < 2147483648"
  shows "(n < int_conv x) = (n < \<lfloor>x\<rfloor>)"
proof -
  have "- 2147483649 < x \<and> x < 2147483648" using assms(2) by linarith
  then have "int_conv x = int_cast x" by (simp add: int_conv_def)
  then show ?thesis using int_cast_gt_iff_floor[OF assms(1), of x] by simp
qed

lemma sun_index_gt_iff:
  assumes "zstep \<noteq> 0" and "\<bar>fl32 (fl32 (z - zmin) / zstep)\<bar> < 2147483648"
  shows "(19 < sun_index z zmin zstep) =
         (zmin < z \<and> 19 < \<lfloor>fl32 (fl32 (z - zmin) / zstep)\<rfloor>)"
proof (cases "z \<le> zmin")
  case True
  then show ?thesis by (simp add: sun_index_def)
next
  case False
  have "sun_index z zmin zstep = int_conv (fl32 (fl32 (z - zmin) / zstep))"
    using False assms(1) by (simp add: sun_index_def)
  then show ?thesis using False int_conv_gt_iff_floor[OF _ assms(2), of 19] by simp
qed

lemma sun_index_85: "sun_index 85 0 4 = 21"
proof -
  have a: "fl32 85 = 85" by (rule fl32_exact_mult[of _ 85 0]) simp_all
  have b: "fl32 (85 / 4) = 85 / 4" by (rule fl32_exact_div[of _ 85 2]) simp_all
  show ?thesis by (simp add: sun_index_def a b int_conv_def int_cast_def)
qed

text \<open>
  The binary32 difference \<^verbatim>\<open>80.1f - 0.1f\<close> is 80, although the difference of the two
  numbers is below 80: the angle index for the step 4 is 20, the index of the exact
  quotient 19.
\<close>

lemma fl32_diff_80: "fl32 (f32_80_1 - f32_0_1) = 80"
proof -
  have "fl32 (10498867 / 131072 - 13421773 / 134217728) =
        of_int (round_even ((10498867 / 131072 - 13421773 / 134217728) * 8388608 / 2 ^ 6)) *
        2 ^ 6 / 8388608"
    by (rule fl32_at_up) simp_all
  also have "\<dots> = 80" by (simp add: round_even_def Let_def)
  finally show ?thesis by (simp add: f32_80_1_def f32_0_1_def)
qed

lemma sun_index_80_1: "sun_index f32_80_1 f32_0_1 4 = 20"
proof -
  have lt: "\<not> f32_80_1 \<le> f32_0_1" by (simp add: f32_80_1_def f32_0_1_def)
  have b: "fl32 20 = 20" using fl32_exact_mult[of 20 20 0] by simp
  show ?thesis using lt by (simp add: sun_index_def fl32_diff_80 b int_conv_def int_cast_def)
qed

text \<open>
  A quotient beyond the range of \<^verbatim>\<open>int\<close>: the index is \<^verbatim>\<open>INT_MIN\<close>, which the test
  \<^verbatim>\<open>its > 19\<close> lets pass.
\<close>

lemma sun_index_out_of_range: "sun_index 10000000000 0 4 = - 2147483648"
proof -
  have a: "fl32 10000000000 = 10000000000" by (rule fl32_exact_mult[of _ 9765625 10]) simp_all
  have b: "fl32 2500000000 = 2500000000"
    using fl32_exact_mult[of 2500000000 9765625 8] by simp
  show ?thesis by (simp add: sun_index_def a b int_conv_def)
qed

subsection \<open>The two outcomes of \<^verbatim>\<open>atmcorlamb2\<close>\<close>

lemma atmcorlamb2_Inr:
  assumes "its_of a \<le> 19"
  shows "atmcorlamb2 h xtts0 xttv0 a =
     (case gas_of h a of (tgoz, tgwv, tgwvhalf, tgog) \<Rightarrow>
       Inr \<lparr>roslamb =
              fdiv (rotoa a / (tgog * tgoz) -
                    ((roatm_lut h a - rorayp_of h a) * tgwvhalf + rorayp_of h a))
                   (stored xtts0 (trans_solar h a) * stored xttv0 (trans_view h a) * tgwv +
                    satm_lut h a *
                    (rotoa a / (tgog * tgoz) -
                     ((roatm_lut h a - rorayp_of h a) * tgwvhalf + rorayp_of h a))),
            tgo = tgog * tgoz,
            roatm = (roatm_lut h a - rorayp_of h a) * tgwvhalf + rorayp_of h a,
            ttatmg = stored xtts0 (trans_solar h a) * stored xttv0 (trans_view h a) * tgwv,
            satm = satm_lut h a,
            xrorayp = rorayp_of h a\<rparr>)"
  using assms
  by (simp add: atmcorlamb2_def Let_def roatm_lut_def trans_solar_def trans_view_def
      stored_def satm_lut_def gas_of_def rorayp_of_def split: prod.splits)

lemma atmcorlamb2_Inl:
  assumes "\<not> its_of a \<le> 19"
  shows "atmcorlamb2 h xtts0 xttv0 a = Inl (ERROR ''Solar zenith (xts) is too large'' (xts a))"
  using assms by (simp add: atmcorlamb2_def Let_def)

lemma its_of_px_ex: "its_of px_ex = 0"
  by (simp add: its_of_def sun_index_def px_ex_def)

lemma gas_of_px_ex: "gas_of hdr_ex px_ex = (1, 1, 1, 1)"
  by (simp add: gas_of_def comptg_def px_ex_def Let_def c_pow_def)



subsection \<open>Constant tables\<close>

text \<open>
  On a table that holds the same binary32 number everywhere every interpolation
  returns that number.
\<close>

lemma refl_corner_const:
  assumes "\<forall>i. rl i = c" and "fl32 c = c"
  shows "refl_corner js jv smx smn sc nc nf ind rl ix i = c"
  using assms by (simp add: refl_corner_def Let_def fl32_zero split: prod.splits)

lemma bilinear_same:
  assumes "fl32 c = c"
  shows "fl32 (fl32 (fl32 (c + fl32 (u * fl32 (c - c))) + fl32 (t * fl32 (c - c))) +
               fl32 (fl32 (u * t) * fl32 (fl32 (fl32 (c - c) - c) + c))) = c"
proof -
  have n: "fl32 (- c) = - c" using assms by (simp add: fl32_neg)
  show ?thesis by (simp add: fl32_zero assms n)
qed

lemma interp_const:
  assumes "\<forall>i. rl i = c" and "fl32 c = c"
  shows "interp_refl_using_scat_angle js jv smx smn sc nc nf ind rl ix t u = c"
proof -
  have m: "map (refl_corner js jv smx smn sc nc nf ind rl ix) [0..<4] = [c, c, c, c]"
    by (simp add: refl_corner_const[OF assms] upt_rec)
  show ?thesis unfolding interp_refl_using_scat_angle_def Let_def m
    using bilinear_same[OF assms(2), of u t] by simp
qed

lemma comproatm_const:
  assumes "\<forall>i. rl i = c" and "fl32 c = c"
  shows "comproatm h ip1 ip2 i1 i2 zs zv ms mv cf q b p tp tab rl smax smin nc nf tt ind tv ss
           vs vmin js jv = c"
  unfolding comproatm_blend_pres roatm_at_pres_def refl_at_def Let_def
  by (simp add: interp_const[OF assms] assms(2) lerp32_same)

lemma compsalb_const:
  assumes "\<forall>i. alb i = c" and "fl32 c = c"
  shows "compsalb h ip1 ip2 i1 i2 q b p tp tab alb nx = c"
  unfolding compsalb_blend salb_at_pres_def Let_def
  using assms by (simp add: lerp32_same)

lemma comptrans_const:
  assumes "\<forall>i. tr i = c" and "fl32 c = c" and "sun_index z zmin zstep \<le> 19"
  shows "comptrans h ip1 ip2 i1 i2 z q b p tp tab tr zstep zmin tt = Inr c"
  unfolding comptrans_blend[OF refl assms(3)] trans_at_pres_def Let_def
  using assms(1,2) by (simp add: lerp32_same)


subsection \<open>The final composition\<close>


lemma gas_of_px_ex2:
  "gas_of hdr_ex px_ex2 = (exp (- 1 / 5), exp (- 1 / 5), exp (- 1 / 10), exp (- 1 / 50))"
  by (simp add: gas_of_def comptg_def px_ex2_def px_ex_def hdr_ex_def Let_def c_pow_def)








subsection \<open>The only failure: a solar zenith angle beyond the table\<close>

text \<open>
  Claim C2, as amended. Take an input with a nonzero step \<open>xtsstep\<close> whose angle
  quotient, computed in binary32 as \<open>fl32 (fl32 (xts - xtsmin) / xtsstep)\<close>, is within
  the range of \<^verbatim>\<open>int\<close>. \<^verbatim>\<open>atmcorlamb2\<close> returns \<^verbatim>\<open>ERROR\<close>, with the message about the
  solar zenith angle, exactly when \<open>xts\<close> exceeds \<open>xtsmin\<close> and the integer part of that
  quotient exceeds 19; on every other such input it returns \<^verbatim>\<open>SUCCESS\<close>. The index is
  the one of the rounded difference and the rounded quotient, not the one of the
  exact quotient \<open>(xts - xtsmin) / xtsstep\<close>. In particular \<open>xts = 85\<close> with
  \<open>xtsmin = 0\<close> and \<open>xtsstep = 4\<close> fails.
\<close>

theorem atmcorlamb2_error_iff:
  assumes "xtsstep a \<noteq> 0"
    and "\<bar>fl32 (fl32 (xts a - xtsmin a) / xtsstep a)\<bar> < 2147483648"
  shows "((atmcorlamb2 h xtts0 xttv0 a =
            Inl (ERROR ''Solar zenith (xts) is too large'' (xts a))) =
          (xtsmin a < xts a \<and> 19 < \<lfloor>fl32 (fl32 (xts a - xtsmin a) / xtsstep a)\<rfloor>)) \<and>
         ((\<exists>out. atmcorlamb2 h xtts0 xttv0 a = Inr out) =
          (\<not> (xtsmin a < xts a \<and> 19 < \<lfloor>fl32 (fl32 (xts a - xtsmin a) / xtsstep a)\<rfloor>))) \<and>
         (xts a = 85 \<and> xtsmin a = 0 \<and> xtsstep a = 4 \<longrightarrow>
            atmcorlamb2 h xtts0 xttv0 a = Inl (ERROR ''Solar zenith (xts) is too large'' 85))"
proof -
  have iff: "(19 < its_of a) =
             (xtsmin a < xts a \<and> 19 < \<lfloor>fl32 (fl32 (xts a - xtsmin a) / xtsstep a)\<rfloor>)"
    unfolding its_of_def by (rule sun_index_gt_iff[OF assms])
  have p: "xts a = 85 \<and> xtsmin a = 0 \<and> xtsstep a = 4 \<longrightarrow>
            atmcorlamb2 h xtts0 xttv0 a = Inl (ERROR ''Solar zenith (xts) is too large'' 85)"
  proof
    assume e: "xts a = 85 \<and> xtsmin a = 0 \<and> xtsstep a = 4"
    then have "its_of a = 21" by (simp add: its_of_def sun_index_85)
    then have "\<not> its_of a \<le> 19" by simp
    from atmcorlamb2_Inl[OF this, of h xtts0 xttv0] e
    show "atmcorlamb2 h xtts0 xttv0 a = Inl (ERROR ''Solar zenith (xts) is too large'' 85)"
      by simp
  qed
  show ?thesis
  proof (cases "its_of a \<le> 19")
    case True
    then have n: "\<not> (xtsmin a < xts a \<and>
                     19 < \<lfloor>fl32 (fl32 (xts a - xtsmin a) / xtsstep a)\<rfloor>)"
      using iff by simp
    from atmcorlamb2_Inr[OF True, of h xtts0 xttv0] n p show ?thesis
      by (auto split: prod.splits)
  next
    case False
    then have y: "xtsmin a < xts a \<and> 19 < \<lfloor>fl32 (fl32 (xts a - xtsmin a) / xtsstep a)\<rfloor>"
      using iff by simp
    from atmcorlamb2_Inl[OF False, of h xtts0 xttv0] y p show ?thesis by simp
  qed
qed

theorem atmcorlamb2_error_iff_witness:
  "atmcorlamb2 hdr_ex 0 0 (px_ex\<lparr>xts := 85\<rparr>) =
     Inl (ERROR ''Solar zenith (xts) is too large'' 85) \<and>
   (\<exists>out. atmcorlamb2 hdr_ex 0 0 px_ex2 = Inr out)"
proof -
  have f85: "fl32 85 = 85" by (rule fl32_exact_mult[of _ 85 0]) simp_all
  have f21: "fl32 (85 / 4) = 85 / 4" by (rule fl32_exact_div[of _ 85 2]) simp_all
  have a: "xtsstep (px_ex\<lparr>xts := 85\<rparr>) \<noteq> 0"
    "\<bar>fl32 (fl32 (xts (px_ex\<lparr>xts := 85\<rparr>) - xtsmin (px_ex\<lparr>xts := 85\<rparr>)) /
            xtsstep (px_ex\<lparr>xts := 85\<rparr>))\<bar> < 2147483648"
    by (simp_all add: px_ex_def f85 f21)
  have b: "xtsstep px_ex2 \<noteq> 0"
    "\<bar>fl32 (fl32 (xts px_ex2 - xtsmin px_ex2) / xtsstep px_ex2)\<bar> < 2147483648"
    by (simp_all add: px_ex2_def px_ex_def fl32_zero)
  have c: "\<not> xtsmin px_ex2 < xts px_ex2" by (simp add: px_ex2_def px_ex_def)
  have d: "xts (px_ex\<lparr>xts := 85\<rparr>) = 85 \<and> xtsmin (px_ex\<lparr>xts := 85\<rparr>) = 0 \<and>
           xtsstep (px_ex\<lparr>xts := 85\<rparr>) = 4"
    by (simp add: px_ex_def)
  from atmcorlamb2_error_iff[OF a, of hdr_ex 0 0] d
  have 1: "atmcorlamb2 hdr_ex 0 0 (px_ex\<lparr>xts := 85\<rparr>) =
     Inl (ERROR ''Solar zenith (xts) is too large'' 85)" by blast
  from atmcorlamb2_error_iff[OF b, of hdr_ex 0 0] c
  have 2: "\<exists>out. atmcorlamb2 hdr_ex 0 0 px_ex2 = Inr out" by blast
  from 1 2 show ?thesis by blast
qed

text \<open>
  The index of the exact quotient is 19 and the solver reports the error: the
  binary32 difference \<^verbatim>\<open>80.1f - 0.1f\<close> is 80 and the computed index 20.
\<close>

theorem atmcorlamb2_error_iff_counterexample:
  "xtsmin (px_ex\<lparr>xts := f32_80_1, xtsmin := f32_0_1\<rparr>) <
     xts (px_ex\<lparr>xts := f32_80_1, xtsmin := f32_0_1\<rparr>) \<and>
   \<lfloor>(xts (px_ex\<lparr>xts := f32_80_1, xtsmin := f32_0_1\<rparr>) -
      xtsmin (px_ex\<lparr>xts := f32_80_1, xtsmin := f32_0_1\<rparr>)) /
     xtsstep (px_ex\<lparr>xts := f32_80_1, xtsmin := f32_0_1\<rparr>)\<rfloor> = 19 \<and>
   atmcorlamb2 hdr_ex 0 0 (px_ex\<lparr>xts := f32_80_1, xtsmin := f32_0_1\<rparr>) =
     Inl (ERROR ''Solar zenith (xts) is too large'' f32_80_1)"
proof -
  define px where "px = px_ex\<lparr>xts := f32_80_1, xtsmin := f32_0_1\<rparr>"
  have f: "xts px = f32_80_1" "xtsmin px = f32_0_1" "xtsstep px = 4"
    by (simp_all add: px_def px_ex_def)
  have 1: "xtsmin px < xts px" unfolding f by (simp add: f32_80_1_def f32_0_1_def)
  have 2: "\<lfloor>(xts px - xtsmin px) / xtsstep px\<rfloor> = 19"
    unfolding f by (simp add: f32_80_1_def f32_0_1_def floor_eq_iff)
  have "its_of px = 20" unfolding its_of_def f by (rule sun_index_80_1)
  then have "\<not> its_of px \<le> 19" by simp
  from atmcorlamb2_Inl[OF this, of hdr_ex 0 0]
  have 3: "atmcorlamb2 hdr_ex 0 0 px = Inl (ERROR ''Solar zenith (xts) is too large'' f32_80_1)"
    by (simp add: f)
  from 1 2 3 show ?thesis unfolding px_def by blast
qed


subsection \<open>The bracket scans\<close>

text \<open>
  Both scans keep the last index of their range at which the comparison holds, and
  \<open>0\<close> when it holds nowhere.
\<close>

lemma scan_fold_app:
  "0 \<le> n \<Longrightarrow> fold f [0..n] (a::int) = f n (fold f [0..n - 1] a)"
  by (simp add: upto_rec2)

lemma scan_last:
  fixes P :: "int \<Rightarrow> bool"
  assumes "- 1 \<le> n"
  shows "let r = fold (\<lambda>i acc. if P i then i else acc) [0..n] 0 in
         ((\<exists>i. 0 \<le> i \<and> i \<le> n \<and> P i) \<longrightarrow>
            0 \<le> r \<and> r \<le> n \<and> P r \<and> (\<forall>j. r < j \<and> j \<le> n \<longrightarrow> \<not> P j)) \<and>
         ((\<forall>i. 0 \<le> i \<and> i \<le> n \<longrightarrow> \<not> P i) \<longrightarrow> r = 0)"
  using assms
proof (induction n rule: int_ge_induct)
  case base
  show ?case by simp
next
  case (step n)
  have n0: "0 \<le> n + 1" using step.hyps by simp
  let ?f = "\<lambda>i acc. if P i then i else acc"
  define r where "r = fold ?f [0..n] 0"
  have unf: "fold ?f [0..n + 1] 0 = ?f (n + 1) r"
    using scan_fold_app[OF n0, of ?f 0] by (simp add: r_def)
  have IH1: "(\<exists>i. 0 \<le> i \<and> i \<le> n \<and> P i) \<Longrightarrow>
               0 \<le> r \<and> r \<le> n \<and> P r \<and> (\<forall>j. r < j \<and> j \<le> n \<longrightarrow> \<not> P j)"
    and IH2: "(\<forall>i. 0 \<le> i \<and> i \<le> n \<longrightarrow> \<not> P i) \<Longrightarrow> r = 0"
    using step.IH unfolding Let_def r_def by blast+
  show ?case
  proof (cases "P (n + 1)")
    case True
    have eq: "fold ?f [0..n + 1] 0 = n + 1" using True by (simp add: unf)
    have a: "\<forall>j. n + 1 < j \<and> j \<le> n + 1 \<longrightarrow> \<not> P j" by (intro allI impI) linarith
    have b: "\<not> (\<forall>i. 0 \<le> i \<and> i \<le> n + 1 \<longrightarrow> \<not> P i)" using True n0 by blast
    show ?thesis unfolding Let_def eq using True n0 a b by blast
  next
    case False
    have eq: "fold ?f [0..n + 1] 0 = r" using False by (simp add: unf)
    have split: "\<And>j. j \<le> n + 1 \<Longrightarrow> j \<le> n \<or> j = n + 1" by linarith
    have c1: "(\<exists>i. 0 \<le> i \<and> i \<le> n + 1 \<and> P i) \<Longrightarrow>
                0 \<le> r \<and> r \<le> n + 1 \<and> P r \<and> (\<forall>j. r < j \<and> j \<le> n + 1 \<longrightarrow> \<not> P j)"
    proof -
      assume "\<exists>i. 0 \<le> i \<and> i \<le> n + 1 \<and> P i"
      then obtain i where i: "0 \<le> i" "i \<le> n + 1" "P i" by blast
      from i(2) split have "i \<le> n \<or> i = n + 1" by blast
      with i(3) False have "i \<le> n" by blast
      with i have "\<exists>i. 0 \<le> i \<and> i \<le> n \<and> P i" by blast
      from IH1[OF this] have r: "0 \<le> r" "r \<le> n" "P r"
        and l: "\<forall>j. r < j \<and> j \<le> n \<longrightarrow> \<not> P j" by blast+
      have "\<forall>j. r < j \<and> j \<le> n + 1 \<longrightarrow> \<not> P j"
      proof (intro allI impI)
        fix j assume j: "r < j \<and> j \<le> n + 1"
        then have "j \<le> n \<or> j = n + 1" using split by blast
        then show "\<not> P j" using l j False by blast
      qed
      moreover have "r \<le> n + 1" using r(2) by simp
      ultimately show ?thesis using r by blast
    qed
    have c2: "(\<forall>i. 0 \<le> i \<and> i \<le> n + 1 \<longrightarrow> \<not> P i) \<Longrightarrow> r = 0"
    proof -
      assume h: "\<forall>i. 0 \<le> i \<and> i \<le> n + 1 \<longrightarrow> \<not> P i"
      have "\<forall>i. 0 \<le> i \<and> i \<le> n \<longrightarrow> \<not> P i"
      proof (intro allI impI)
        fix i assume "0 \<le> i \<and> i \<le> n"
        then have "0 \<le> i \<and> i \<le> n + 1" by simp
        with h show "\<not> P i" by blast
      qed
      from IH2[OF this] show ?thesis .
    qed
    show ?thesis unfolding Let_def eq using c1 c2 by blast
  qed
qed

lemma scan_last_range:
  fixes P :: "int \<Rightarrow> bool"
  assumes "0 \<le> n"
  shows "0 \<le> fold (\<lambda>i acc. if P i then i else acc) [0..n] 0 \<and>
         fold (\<lambda>i acc. if P i then i else acc) [0..n] 0 \<le> n"
proof -
  define r where "r = fold (\<lambda>i acc. if P i then i else acc) [0..n] 0"
  have n1: "- 1 \<le> n" using assms by simp
  have s1: "(\<exists>i. 0 \<le> i \<and> i \<le> n \<and> P i) \<Longrightarrow> 0 \<le> r \<and> r \<le> n"
    and s2: "(\<forall>i. 0 \<le> i \<and> i \<le> n \<longrightarrow> \<not> P i) \<Longrightarrow> r = 0"
    using scan_last[OF n1, of P] unfolding Let_def r_def by blast+
  have "0 \<le> r \<and> r \<le> n"
  proof (cases "\<exists>i. 0 \<le> i \<and> i \<le> n \<and> P i")
    case True
    then show ?thesis by (rule s1)
  next
    case False
    then have "r = 0" using s2 by blast
    then show ?thesis using assms by simp
  qed
  then show ?thesis unfolding r_def .
qed

lemma scan_last_found:
  fixes P :: "int \<Rightarrow> bool"
  assumes "0 \<le> i" and "i \<le> n" and "P i"
  shows "P (fold (\<lambda>i acc. if P i then i else acc) [0..n] 0) \<and>
         (\<forall>j. fold (\<lambda>i acc. if P i then i else acc) [0..n] 0 < j \<and> j \<le> n \<longrightarrow> \<not> P j)"
proof -
  have n1: "- 1 \<le> n" using assms by simp
  have e: "\<exists>i. 0 \<le> i \<and> i \<le> n \<and> P i" using assms by blast
  from scan_last[OF n1, of P] e show ?thesis unfolding Let_def by blast
qed

lemma scan_last_none:
  fixes P :: "int \<Rightarrow> bool"
  assumes "\<forall>i. 0 \<le> i \<and> i \<le> n \<longrightarrow> \<not> P i"
  shows "fold (\<lambda>i acc. if P i then i else acc) [0..n] 0 = 0"
proof (cases "- 1 \<le> n")
  case True
  from scan_last[OF True, of P] assms show ?thesis unfolding Let_def by blast
next
  case False
  then have "[0..n] = []" by simp
  then show ?thesis by simp
qed

lemma iaot1_scan_ex_007: "iaot1_scan (7 / 100) aot_ex = 1"
  unfolding iaot1_scan_def by (simp add: upto.simps aot_ex_def)


text \<open>
  Claim C3, as amended. The AOT scan of \<^verbatim>\<open>atmcorlamb2\<close> runs over the indices \<open>0..20\<close>
  and leaves in \<open>iaot1\<close> the last index whose table value is strictly less than the
  query AOT (the query exceeds the table value), or \<open>0\<close> when there is none; so
  \<open>0 \<le> iaot1 \<le> 20\<close> and the upper neighbour \<open>iaot2 = iaot1 + 1 \<le> 21\<close> exists for
  every query. The comparison mirrors the one of the pressure scan, which keeps the
  last index whose table value exceeds the query pressure.
\<close>

theorem iaot1_scan_bracket:
  "0 \<le> iaot1_scan q tab \<and> iaot1_scan q tab \<le> 20 \<and> iaot1_scan q tab + 1 \<le> 21 \<and>
   ((\<exists>i. 0 \<le> i \<and> i \<le> 20 \<and> tab i < q) \<longrightarrow>
      tab (iaot1_scan q tab) < q \<and>
      (\<forall>j. iaot1_scan q tab < j \<and> j \<le> 20 \<longrightarrow> \<not> tab j < q)) \<and>
   ((\<forall>i. 0 \<le> i \<and> i \<le> 20 \<longrightarrow> \<not> tab i < q) \<longrightarrow> iaot1_scan q tab = 0)"
proof -
  have r: "0 \<le> iaot1_scan q tab \<and> iaot1_scan q tab \<le> 20"
    unfolding iaot1_scan_def by (rule scan_last_range) simp
  have c1: "(\<exists>i. 0 \<le> i \<and> i \<le> 20 \<and> tab i < q) \<longrightarrow>
      tab (iaot1_scan q tab) < q \<and>
      (\<forall>j. iaot1_scan q tab < j \<and> j \<le> 20 \<longrightarrow> \<not> tab j < q)"
  proof
    assume "\<exists>i. 0 \<le> i \<and> i \<le> 20 \<and> tab i < q"
    then obtain i where i: "0 \<le> i" "i \<le> 20" "tab i < q" by blast
    show "tab (iaot1_scan q tab) < q \<and>
      (\<forall>j. iaot1_scan q tab < j \<and> j \<le> 20 \<longrightarrow> \<not> tab j < q)"
      unfolding iaot1_scan_def
      by (rule scan_last_found[of i 20 "\<lambda>i. tab i < q", OF i])
  qed
  have c2: "(\<forall>i. 0 \<le> i \<and> i \<le> 20 \<longrightarrow> \<not> tab i < q) \<longrightarrow> iaot1_scan q tab = 0"
  proof
    assume "\<forall>i. 0 \<le> i \<and> i \<le> 20 \<longrightarrow> \<not> tab i < q"
    then show "iaot1_scan q tab = 0"
      unfolding iaot1_scan_def by (rule scan_last_none)
  qed
  have r3: "iaot1_scan q tab + 1 \<le> 21" using r by linarith
  from r r3 c1 c2 show ?thesis by blast
qed

theorem iaot1_scan_bracket_witness:
  "(7 / 100 :: real) < aot_ex 2 \<and> aot_ex (iaot1_scan (7 / 100) aot_ex) < 7 / 100 \<and>
   \<not> aot_ex (iaot1_scan (7 / 100) aot_ex + 1) < 7 / 100"
proof -
  have e: "\<exists>i. 0 \<le> i \<and> i \<le> 20 \<and> aot_ex i < 7 / 100"
    by (rule exI[of _ 0]) (simp add: aot_ex_def)
  from iaot1_scan_bracket[of "7 / 100" aot_ex] e
  have "aot_ex (iaot1_scan (7 / 100) aot_ex) < 7 / 100" by blast
  then show ?thesis by (simp add: iaot1_scan_ex_007 aot_ex_def)
qed

theorem iaot1_scan_counterexample:
  "iaot1_scan (7 / 100) aot_ex = 1 \<and> \<not> (7 / 100 < aot_ex 1) \<and> 7 / 100 < aot_ex 20"
  by (simp add: iaot1_scan_ex_007 aot_ex_def)

subsection \<open>Gas transmission\<close>

text \<open>
  Claim C5. With the airmass \<open>m = 1 / xmus + 1 / xmuv\<close>, \<^verbatim>\<open>comptg\<close> returns the ozone
  transmission \<open>exp (oztransa[iband] * m * uoz)\<close>; the water-vapour transmission
  \<open>exp (- a * (m * uwv) powr b)\<close> when \<open>m * uwv > 1e-6\<close> and \<open>1\<close> otherwise; the same
  formula and threshold with \<open>m * uwv / 2\<close> for the half content; and the other-gas
  transmission \<open>exp (- (ogtransa1[iband] * atm_pres) * m powr
  exp (- (ogtransb0[iband] + ogtransb1[iband] * atm_pres)))\<close>.
\<close>

theorem comptg_formulas:
  "comptg b ms mv oz wv p a1 b0 b1 wa wb za =
     (exp (za b * (1 / ms + 1 / mv) * oz),
      (if (1 / ms + 1 / mv) * wv > 0.000001
       then exp (- wa b * ((1 / ms + 1 / mv) * wv) powr wb b) else 1),
      (if (1 / ms + 1 / mv) * wv / 2 > 0.000001
       then exp (- wa b * ((1 / ms + 1 / mv) * wv / 2) powr wb b) else 1),
      exp (- (a1 b * p) * (1 / ms + 1 / mv) powr exp (- (b0 b + b1 b * p))))"
proof -
  have h1: "(1 / ms + 1 / mv) * wv * 0.5 = (1 / ms + 1 / mv) * wv / 2" by simp
  show ?thesis
    unfolding comptg_def Let_def c_pow_def h1 by (rule refl)
qed

theorem comptg_formulas_witness:
  "comptg 0 1 (1 / 2) 1 1 1 (\<lambda>i. 1) (\<lambda>i. 0) (\<lambda>i. 0) (\<lambda>i. 1) (\<lambda>i. 1) (\<lambda>i. - 1) =
     (exp (- 3), exp (- 3), exp (- (3 / 2)), exp (- 3)) \<and>
   comptg 0 1 1 1 (1 / 2000000) 1 (\<lambda>i. 1) (\<lambda>i. 0) (\<lambda>i. 0) (\<lambda>i. 1) (\<lambda>i. 1) (\<lambda>i. - 1) =
     (exp (- 2), 1, 1, exp (- 2))"
  using comptg_formulas[of 0 1 "1 / 2" 1 1 1 "\<lambda>i. 1" "\<lambda>i. 0" "\<lambda>i. 0" "\<lambda>i. 1" "\<lambda>i. 1" "\<lambda>i. - 1"]
    comptg_formulas[of 0 1 1 1 "1 / 2000000" 1 "\<lambda>i. 1" "\<lambda>i. 0" "\<lambda>i. 0" "\<lambda>i. 1" "\<lambda>i. 1" "\<lambda>i. - 1"]
  by simp

subsection \<open>The scattering-angle bracket\<close>

text \<open>
  Claim C9, as amended. For a corner whose solar and view indices are both nonzero and
  whose \<open>nbfi\<close> value is at least 1, the index \<open>isca\<close> after the clamps satisfies
  \<open>0 \<le> isca \<le> nbfi - 1\<close>; it is at least 1 when \<open>nbfi \<ge> 2\<close>, and it is 0 when
  \<open>nbfi < 2\<close>.
\<close>

theorem scat_bracket_isca:
  assumes "1 \<le> n"
  shows "real_of_int (fst (scat_bracket smax smin sc n)) \<le> n - 1 \<and>
         0 \<le> fst (scat_bracket smax smin sc n) \<and>
         (2 \<le> n \<longrightarrow> 1 \<le> fst (scat_bracket smax smin sc n)) \<and>
         (n < 2 \<longrightarrow> fst (scat_bracket smax smin sc n) = 0)"
proof -
  define i0 where "i0 = int_cast ((smax - sc) * 0.25 + 1)"
  define i1 where "i1 = (if i0 \<le> 0 then 1 else i0)"
  have i1: "1 \<le> i1" by (simp add: i1_def)
  have f: "fst (scat_bracket smax smin sc n) =
             (if real_of_int (i1 + 1) < n then i1 else int_cast (n - 1))"
    by (simp add: scat_bracket_def Let_def i0_def i1_def)
  have c: "int_cast (n - 1) = \<lfloor>n - 1\<rfloor>" using assms by (simp add: int_cast_def)
  show ?thesis
  proof (cases "real_of_int (i1 + 1) < n")
    case True
    with i1 f show ?thesis by auto
  next
    case False
    have a: "real_of_int \<lfloor>n - 1\<rfloor> \<le> n - 1" by (rule of_int_floor_le)
    have b: "0 \<le> \<lfloor>n - 1\<rfloor>" using assms by simp
    have d: "2 \<le> n \<Longrightarrow> 1 \<le> \<lfloor>n - 1\<rfloor>" by (simp add: le_floor_iff)
    have e: "n < 2 \<Longrightarrow> \<lfloor>n - 1\<rfloor> = 0" using assms by (simp add: floor_eq_iff)
    from False f c a b d e show ?thesis by auto
  qed
qed

theorem scat_bracket_isca_witness:
  "(1::real) \<le> 3 \<and> fst (scat_bracket 180 170 178 3) = 1 \<and>
   real_of_int (fst (scat_bracket 180 170 178 3)) \<le> 3 - 1 \<and>
   (1::real) \<le> 1 \<and> fst (scat_bracket 180 176 178 1) = 0"
  using scat_bracket_isca[of 3 180 170 178] scat_bracket_isca[of 1 180 176 178]
  by (simp add: scat_bracket_def int_cast_def Let_def)

theorem scat_bracket_isca_counterexample:
  "(1::real) \<le> 1 \<and> \<not> (1 \<le> fst (scat_bracket 180 176 178 1))"
  by (simp add: scat_bracket_def int_cast_def Let_def)



subsection \<open>The view zenith angle is not validated\<close>

text \<open>
  Claim C10. When the zenith angle handed to \<^verbatim>\<open>comptrans\<close> maps to an angle index above
  19, \<^verbatim>\<open>comptrans\<close> reports the message and returns without storing \<^verbatim>\<open>*xtts\<close>.
  \<^verbatim>\<open>atmcorlamb2\<close> hands it the view zenith angle \<open>xtv\<close> unchecked: for such a view angle
  (and a solar angle within the table) the local \<^verbatim>\<open>xttv\<close> keeps its previous content
  \<open>xttv0\<close>, \<^verbatim>\<open>atmcorlamb2\<close> still returns \<^verbatim>\<open>SUCCESS\<close>, and the returned \<open>ttatmg\<close> is
  computed from \<open>xttv0\<close>.
\<close>

theorem view_zenith_not_validated:
  assumes "its_of a \<le> 19" and "19 < sun_index (xtv a) (xtvmin a) (xtvstep a)"
  shows "trans_view h a = Inl (ERROR ''Zenith angle (xts) is too large'' (xtv a)) \<and>
         stored xttv0 (trans_view h a) = xttv0 \<and>
         (\<exists>out. atmcorlamb2 h xtts0 xttv0 a = Inr out \<and>
                ttatmg out = stored xtts0 (trans_solar h a) * xttv0 * fst (snd (gas_of h a)))"
proof -
  have v: "trans_view h a = Inl (ERROR ''Zenith angle (xts) is too large'' (xtv a))"
    unfolding trans_view_def Let_def by (rule comptrans_early[OF assms(2)])
  then have s: "stored xttv0 (trans_view h a) = xttv0" by (simp add: stored_def)
  obtain tgoz tgwv tgwvhalf tgog where g: "gas_of h a = (tgoz, tgwv, tgwvhalf, tgog)"
    by (cases "gas_of h a") auto
  from atmcorlamb2_Inr[OF assms(1), of h xtts0 xttv0] g s
  have "\<exists>out. atmcorlamb2 h xtts0 xttv0 a = Inr out \<and>
                ttatmg out = stored xtts0 (trans_solar h a) * xttv0 * fst (snd (gas_of h a))"
    by simp
  with v s show ?thesis by blast
qed

theorem view_zenith_not_validated_witness:
  "trans_view hdr_ex (px_ex2\<lparr>xtv := 85\<rparr>) =
     Inl (ERROR ''Zenith angle (xts) is too large'' 85) \<and>
   (\<exists>out. atmcorlamb2 hdr_ex 0 7 (px_ex2\<lparr>xtv := 85\<rparr>) = Inr out \<and>
          ttatmg out = 3 / 4 * 7 * exp (- 1 / 5))"
proof -
  have a: "its_of (px_ex2\<lparr>xtv := 85\<rparr>) \<le> 19"
    by (simp add: its_of_def sun_index_def px_ex2_def px_ex_def)
  have b: "19 < sun_index (xtv (px_ex2\<lparr>xtv := 85\<rparr>)) (xtvmin (px_ex2\<lparr>xtv := 85\<rparr>))
                  (xtvstep (px_ex2\<lparr>xtv := 85\<rparr>))"
    by (simp add: px_ex2_def px_ex_def sun_index_85)
  have c: "fl32 (3 / 4) = 3 / 4" by (rule fl32_exact_div[of _ 3 2]) simp_all
  have s: "sun_index (xts (px_ex2\<lparr>xtv := 85\<rparr>)) (xtsmin (px_ex2\<lparr>xtv := 85\<rparr>))
             (xtsstep (px_ex2\<lparr>xtv := 85\<rparr>)) \<le> 19"
    by (simp add: sun_index_def px_ex2_def px_ex_def)
  have r: "\<forall>i. transt (px_ex2\<lparr>xtv := 85\<rparr>) i = 3 / 4" by (simp add: px_ex2_def)
  have t: "trans_solar hdr_ex (px_ex2\<lparr>xtv := 85\<rparr>) = Inr (3 / 4)"
    unfolding trans_solar_def Let_def by (rule comptrans_const[OF r c s])
  have g: "gas_of hdr_ex (px_ex2\<lparr>xtv := 85\<rparr>) = gas_of hdr_ex px_ex2"
    by (simp add: gas_of_def px_ex2_def px_ex_def)
  from view_zenith_not_validated[OF a b, of hdr_ex 7 0] show ?thesis
    by (simp add: t g gas_of_px_ex2 stored_def)
qed


subsection \<open>The AOT adjustment\<close>

text \<open>
  Claim C4, as amended. In both solvers the adjusted AOT is the raw AOT when the
  angstrom exponent is negative or the band index exceeds the largest band index of
  the sensor, and \<open>(raot550nm / normext_corner) * (lambda[iband] * (1 / 0.55)) powr (- eps)\<close>
  otherwise. \<^verbatim>\<open>atmcorlamb2\<close> uses this value as it is (\<open>mraot550nm_of\<close>): it has no upper
  bound and runs the bracketing scan on it. \<^verbatim>\<open>atmcorlamb2_new\<close> replaces the value, in
  either case, by \<open>roatm_upper\<close> when it is at least \<open>roatm_upper\<close> (\<open>mraot550nm_new\<close>),
  and has no bracketing scan.
\<close>

theorem aot_adjustment:
  "mraot550nm_of h a =
     (if eps a < 0 \<or> iband a > snd (sat_setup h (sat a)) then raot550nm a
      else (raot550nm a / normext a (iband a * NPRES_VALS h * NAOT_VALS h + 3)) *
           (fst (sat_setup h (sat a)) ! nat (iband a) * (1 / 0.55)) powr (- eps a)) \<and>
   mraot550nm_new h s up q b nx e =
     (if (if e < 0 \<or> b > snd (sat_setup h s) then q
          else (q / nx) * (fst (sat_setup h s) ! nat b * (1 / 0.55)) powr (- e)) \<ge> up
      then up
      else (if e < 0 \<or> b > snd (sat_setup h s) then q
            else (q / nx) * (fst (sat_setup h s) ! nat b * (1 / 0.55)) powr (- e)))"
proof -
  obtain l m where 1: "sat_setup h (sat a) = (l, m)" by (cases "sat_setup h (sat a)") auto
  obtain l' m' where 2: "sat_setup h s = (l', m')" by (cases "sat_setup h s") auto
  show ?thesis
    unfolding mraot550nm_of_def mraot550nm_new_def modify_aot_def Let_def c_pow_def 1 2
    by simp
qed

theorem aot_adjustment_witness:
  "mraot550nm_of hdr_ex px_ex = 1 \<and>
   mraot550nm_of hdr_ex (px_ex\<lparr>eps := 1, raot550nm := 2, normext := (\<lambda>i. 4)\<rparr>) =
     (2 / 4) * (0.443 * (1 / 0.55)) powr (- 1) \<and>
   mraot550nm_new hdr_ex SAT_SENTINEL_2 5 3 11 4 1 = 3 \<and>
   mraot550nm_new hdr_ex SAT_SENTINEL_2 5 3 10 4 0 = 3 / 4"
  using aot_adjustment[of hdr_ex px_ex SAT_SENTINEL_2 5 3 11 4 1]
    aot_adjustment[of hdr_ex "px_ex\<lparr>eps := 1, raot550nm := 2, normext := (\<lambda>i. 4)\<rparr>"
      SAT_SENTINEL_2 5 3 10 4 0]
  by (simp add: px_ex_def hdr_ex_def sat_setup_def landsat_lambda_def sentinel_lambda_def)

theorem aot_adjustment_counterexample:
  "(- 1 :: real) < 0 \<and> mraot550nm_new hdr_ex SAT_LANDSAT_8 2 3 0 1 (- 1) = 2 \<and>
   mraot550nm_new hdr_ex SAT_LANDSAT_8 2 3 0 1 (- 1) \<noteq> 3"
  by (simp add: mraot550nm_new_def modify_aot_def hdr_ex_def sat_setup_def Let_def)



subsection \<open>A query pressure on the grid\<close>

lemma ip1_scan_grid:
  assumes desc: "\<forall>i j. 0 \<le> i \<and> i < j \<and> j < NPRES_VALS h \<longrightarrow> tp j < tp i"
    and k0: "0 \<le> k" and kN: "k < NPRES_VALS h"
  shows "ip1_scan h (tp k) tp = (if k = 0 then 0 else k - 1)"
proof -
  let ?n = "NPRES_VALS h - 2"
  let ?P = "\<lambda>i. tp k < tp i"
  define r where "r = fold (\<lambda>ip ip1. if ?P ip then ip else ip1) [0..?n] 0"
  have A: "\<And>i. 0 \<le> i \<Longrightarrow> i \<le> ?n \<Longrightarrow> ?P i = (i < k)"
  proof -
    fix i assume i: "0 \<le> i" "i \<le> ?n"
    show "?P i = (i < k)"
    proof (cases "i < k")
      case True
      with desc i kN have "tp k < tp i" by blast
      with True show ?thesis by simp
    next
      case False
      show ?thesis
      proof (cases "i = k")
        case True
        then show ?thesis by simp
      next
        case neq: False
        with False have ki: "k < i" by simp
        have "i < NPRES_VALS h" using i by simp
        with desc k0 ki have "tp i < tp k" by blast
        with False show ?thesis by simp
      qed
    qed
  qed
  have "r = (if k = 0 then 0 else k - 1)"
  proof (cases "k = 0")
    case True
    have "\<forall>i. 0 \<le> i \<and> i \<le> ?n \<longrightarrow> \<not> ?P i" using A True by simp
    then have "r = 0" unfolding r_def by (rule scan_last_none)
    with True show ?thesis by simp
  next
    case False
    with k0 have k1: "0 \<le> k - 1" by simp
    have k2: "k - 1 \<le> ?n" using kN by simp
    have Pk: "?P (k - 1)" using A[OF k1 k2] by simp
    have n0: "0 \<le> ?n" using k1 k2 by linarith
    from scan_last_found[of "k - 1" ?n ?P, OF k1 k2 Pk]
    have Pr: "?P r" and last: "\<forall>j. r < j \<and> j \<le> ?n \<longrightarrow> \<not> ?P j"
      unfolding r_def by blast+
    from scan_last_range[of ?n ?P, OF n0] have rr: "0 \<le> r" "r \<le> ?n"
      unfolding r_def by blast+
    from A[OF rr] Pr have "r < k" by simp
    moreover have "\<not> r < k - 1"
    proof
      assume "r < k - 1"
      with last k2 have "\<not> ?P (k - 1)" by blast
      with Pk show False by simp
    qed
    ultimately have "r = k - 1" by linarith
    with False show ?thesis by simp
  qed
  then show ?thesis unfolding r_def ip1_scan_def .
qed


lemma grid_bracket:
  assumes desc: "\<forall>i j. 0 \<le> i \<and> i < j \<and> j < NPRES_VALS h \<longrightarrow> tp j < tp i"
    and k0: "0 \<le> k" and kN: "k < NPRES_VALS h"
    and ip1: "ip1 = ip1_scan h (tp k) tp" and ip2: "ip2 = ip1 + 1"
  shows "(k = 0 \<longrightarrow> ip1 = 0 \<and> frac32 (tp k) (tp ip1) (tp ip2) = 0) \<and>
         (k \<noteq> 0 \<longrightarrow> ip1 = k - 1 \<and> ip2 = k \<and> frac32 (tp k) (tp ip1) (tp ip2) = 1)"
proof (cases "k = 0")
  case True
  have "ip1 = 0" using ip1_scan_grid[OF desc k0 kN] ip1 True by simp
  then show ?thesis using True by (simp add: frac32_lo)
next
  case False
  have i1: "ip1 = k - 1" using ip1_scan_grid[OF desc k0 kN] ip1 False by simp
  have i2: "ip2 = k" using ip2 i1 by simp
  have "tp k < tp (k - 1)" using desc k0 kN False by simp
  then have "tp k \<noteq> tp (k - 1)" by simp
  then have "frac32 (tp k) (tp ip1) (tp ip2) = 1" unfolding i1 i2 by (rule frac32_hi)
  then show ?thesis using False i1 i2 by simp
qed

lemma grid_blend:
  fixes X :: "int \<Rightarrow> real"
  assumes r: "\<And>j. fl32 (X j) = X j"
    and b: "(k = 0 \<longrightarrow> ip1 = 0 \<and> d = 0) \<and> (k \<noteq> 0 \<longrightarrow> ip1 = k - 1 \<and> ip2 = k \<and> d = 1)"
  shows "lerp32 (X ip1) (X ip2) d =
           (if k = 0 then X 0 else fl32 (X (k - 1) + fl32 (X k - X (k - 1))))"
proof (cases "k = 0")
  case True
  with b have "ip1 = 0" and "d = 0" by blast+
  then show ?thesis using True lerp32_0[OF r] by simp
next
  case False
  with b have "ip1 = k - 1" and "ip2 = k" and "d = 1" by blast+
  then show ?thesis using False by (simp add: lerp32_1)
qed

lemma grid_blend_exact:
  fixes X :: "int \<Rightarrow> real"
  assumes r: "\<And>j. fl32 (X j) = X j"
    and e: "k = 0 \<or> fl32 (X k - X (k - 1)) = X k - X (k - 1)"
  shows "(if k = 0 then X 0 else fl32 (X (k - 1) + fl32 (X k - X (k - 1)))) = X k"
proof (cases "k = 0")
  case True
  then show ?thesis by simp
next
  case False
  with e have "fl32 (X k - X (k - 1)) = X k - X (k - 1)" by blast
  then show ?thesis using False r by simp
qed

text \<open>
  The binary32 blend of \<^verbatim>\<open>0.3f\<close> and \<^verbatim>\<open>0.05f\<close> at the fraction 1: the difference
  \<^verbatim>\<open>0.05f - 0.3f\<close> is rounded to \<open>- 1 / 4\<close>, and \<^verbatim>\<open>0.3f - 0.25f\<close> is the binary32 number
  three units in the last place above \<^verbatim>\<open>0.05f\<close>.
\<close>

lemma f32_rounded:
  "fl32 f32_0_3 = f32_0_3" "fl32 f32_0_05 = f32_0_05"
proof -
  show "fl32 f32_0_3 = f32_0_3"
    by (rule fl32_exact_div[of _ 10066330 25]) (simp_all add: f32_0_3_def)
  show "fl32 f32_0_05 = f32_0_05"
    by (rule fl32_exact_div[of _ 13421773 28]) (simp_all add: f32_0_05_def)
qed

lemma fl32_diff_quarter: "fl32 (f32_0_05 - f32_0_3) = - (1 / 4)"
proof -
  have "fl32 (10066330 / 33554432 - 13421773 / 268435456) =
        of_int (round_even ((10066330 / 33554432 - 13421773 / 268435456) * 8388608 * 2 ^ 2)) /
        (8388608 * 2 ^ 2)"
    by (rule fl32_at_dn) simp_all
  also have "\<dots> = 1 / 4" by (simp add: round_even_def Let_def)
  finally have a: "fl32 (f32_0_3 - f32_0_05) = 1 / 4"
    unfolding f32_0_3_def f32_0_05_def .
  have n: "fl32 (f32_0_05 - f32_0_3) = - fl32 (f32_0_3 - f32_0_05)"
    using fl32_neg[of "f32_0_3 - f32_0_05"] by simp
  show ?thesis unfolding n a ..
qed

lemma lerp32_03_005: "lerp32 f32_0_3 f32_0_05 1 = 13421776 / 268435456"
proof -
  have s: "f32_0_3 + - (1 / 4) = 13421776 / 268435456" by (simp add: f32_0_3_def)
  have r: "fl32 (13421776 / 268435456) = 13421776 / 268435456"
    by (rule fl32_exact_div[of _ 13421776 28]) simp_all
  show ?thesis unfolding lerp32_1 fl32_diff_quarter s r ..
qed

lemma salb_at_pres_ex:
  assumes "fl32 c0 = c0" and "fl32 c1 = c1"
  shows "salb_at_pres hdr_ex 0 8 9 q 0 tab (sphalbt_ex c0 c1) = c0"
    and "salb_at_pres hdr_ex 1 8 9 q 0 tab (sphalbt_ex c0 c1) = c1"
  using assms by (simp_all add: salb_at_pres_def hdr_ex_def sphalbt_ex_def Let_def lerp32_same)


text \<open>
  Claim C7, as amended. Let the pressure table be strictly descending and let the
  query pressure be the grid entry \<open>tp k\<close>. Then the bracket \<open>(ip1, ip1 + 1)\<close> chosen by
  the pressure scan of \<^verbatim>\<open>atmcorlamb2\<close> gives a pressure fraction \<open>dpres\<close> that is exactly
  0 (for \<open>k = 0\<close>) or exactly 1 (for \<open>k > 0\<close>). For \<open>k = 0\<close> each composer returns the
  value of the single pressure corner 0. For \<open>k > 0\<close> each composer returns the
  binary32 value of \<open>X (k - 1) + (X k - X (k - 1))\<close>, where \<open>X j\<close> is the value of the
  single pressure corner \<open>j\<close>; this is \<open>X k\<close> when the difference \<open>X k - X (k - 1)\<close> is a
  binary32 number. \<^verbatim>\<open>compsalb\<close> returns the spherical albedo, \<^verbatim>\<open>comptrans\<close> the
  transmission (when its angle index is within the table) and \<^verbatim>\<open>comproatm\<close> the
  reflectance.
\<close>

theorem pressure_grid_point:
  assumes desc: "\<forall>i j. 0 \<le> i \<and> i < j \<and> j < NPRES_VALS h \<longrightarrow> tp j < tp i"
    and k0: "0 \<le> k" and kN: "k < NPRES_VALS h"
    and ip1: "ip1 = ip1_scan h (tp k) tp" and ip2: "ip2 = ip1 + 1"
    and dp: "dpres = frac32 (tp k) (tp ip1) (tp ip2)"
    and zi: "zi = sun_index z zmin zstep"
  shows "(dpres = 0 \<or> dpres = 1) \<and> ((dpres = 0) = (k = 0)) \<and>
         compsalb h ip1 ip2 i1 i2 q b (tp k) tp tab alb nx =
           (if k = 0 then salb_at_pres h 0 i1 i2 q b tab alb
            else fl32 (salb_at_pres h (k - 1) i1 i2 q b tab alb +
                       fl32 (salb_at_pres h k i1 i2 q b tab alb -
                             salb_at_pres h (k - 1) i1 i2 q b tab alb))) \<and>
         (k = 0 \<or>
          fl32 (salb_at_pres h k i1 i2 q b tab alb - salb_at_pres h (k - 1) i1 i2 q b tab alb) =
            salb_at_pres h k i1 i2 q b tab alb - salb_at_pres h (k - 1) i1 i2 q b tab alb \<longrightarrow>
          compsalb h ip1 ip2 i1 i2 q b (tp k) tp tab alb nx =
            salb_at_pres h k i1 i2 q b tab alb) \<and>
         (zi \<le> 19 \<longrightarrow>
            comptrans h ip1 ip2 i1 i2 z q b (tp k) tp tab tr zstep zmin tt =
              Inr (if k = 0 then trans_at_pres h 0 i1 i2 z q b tab tr tt zi
                   else fl32 (trans_at_pres h (k - 1) i1 i2 z q b tab tr tt zi +
                              fl32 (trans_at_pres h k i1 i2 z q b tab tr tt zi -
                                    trans_at_pres h (k - 1) i1 i2 z q b tab tr tt zi)))) \<and>
         (zi \<le> 19 \<and>
          (k = 0 \<or>
           fl32 (trans_at_pres h k i1 i2 z q b tab tr tt zi -
                 trans_at_pres h (k - 1) i1 i2 z q b tab tr tt zi) =
             trans_at_pres h k i1 i2 z q b tab tr tt zi -
             trans_at_pres h (k - 1) i1 i2 z q b tab tr tt zi) \<longrightarrow>
          comptrans h ip1 ip2 i1 i2 z q b (tp k) tp tab tr zstep zmin tt =
            Inr (trans_at_pres h k i1 i2 z q b tab tr tt zi)) \<and>
         comproatm h ip1 ip2 i1 i2 zs zv ms mv cf q b (tp k) tp tab rl smax smin nc nf tt ind
           tv ss vs vmin js jv =
           (if k = 0
            then roatm_at_pres h 0 i1 i2 zs zv ms mv cf q b rl smax smin nc nf tt ind tv js jv
            else fl32 (roatm_at_pres h (k - 1) i1 i2 zs zv ms mv cf q b rl smax smin nc nf tt
                         ind tv js jv +
                       fl32 (roatm_at_pres h k i1 i2 zs zv ms mv cf q b rl smax smin nc nf tt
                               ind tv js jv -
                             roatm_at_pres h (k - 1) i1 i2 zs zv ms mv cf q b rl smax smin nc
                               nf tt ind tv js jv))) \<and>
         (k = 0 \<or>
          fl32 (roatm_at_pres h k i1 i2 zs zv ms mv cf q b rl smax smin nc nf tt ind tv js jv -
                roatm_at_pres h (k - 1) i1 i2 zs zv ms mv cf q b rl smax smin nc nf tt ind tv
                  js jv) =
            roatm_at_pres h k i1 i2 zs zv ms mv cf q b rl smax smin nc nf tt ind tv js jv -
            roatm_at_pres h (k - 1) i1 i2 zs zv ms mv cf q b rl smax smin nc nf tt ind tv js
              jv \<longrightarrow>
          comproatm h ip1 ip2 i1 i2 zs zv ms mv cf q b (tp k) tp tab rl smax smin nc nf tt ind
            tv ss vs vmin js jv =
            roatm_at_pres h k i1 i2 zs zv ms mv cf q b rl smax smin nc nf tt ind tv js jv)"
proof -
  define S where "S = (\<lambda>j. salb_at_pres h j i1 i2 q b tab alb)"
  define T where "T = (\<lambda>j. trans_at_pres h j i1 i2 z q b tab tr tt zi)"
  define P where
    "P = (\<lambda>j. roatm_at_pres h j i1 i2 zs zv ms mv cf q b rl smax smin nc nf tt ind tv js jv)"
  have Sj: "\<And>j. salb_at_pres h j i1 i2 q b tab alb = S j" by (simp add: S_def)
  have Tj: "\<And>j. trans_at_pres h j i1 i2 z q b tab tr tt zi = T j" by (simp add: T_def)
  have Pj: "\<And>j. roatm_at_pres h j i1 i2 zs zv ms mv cf q b rl smax smin nc nf tt ind tv js jv =
                P j" by (simp add: P_def)
  have rS: "\<And>j. fl32 (S j) = S j" unfolding S_def by (rule salb_at_pres_rounded)
  have rT: "\<And>j. fl32 (T j) = T j" unfolding T_def by (rule trans_at_pres_rounded)
  have rP: "\<And>j. fl32 (P j) = P j" unfolding P_def by (rule roatm_at_pres_rounded)
  note br0 = grid_bracket[OF desc k0 kN ip1 ip2]
  have br: "(k = 0 \<longrightarrow> ip1 = 0 \<and> dpres = 0) \<and>
            (k \<noteq> 0 \<longrightarrow> ip1 = k - 1 \<and> ip2 = k \<and> dpres = 1)"
    using br0 dp by blast
  have c1: "(dpres = 0 \<or> dpres = 1) \<and> ((dpres = 0) = (k = 0))"
  proof (cases "k = 0")
    case True
    with br show ?thesis by blast
  next
    case False
    with br have "dpres = 1" by blast
    with False show ?thesis by simp
  qed
  have eS: "compsalb h ip1 ip2 i1 i2 q b (tp k) tp tab alb nx =
              (if k = 0 then S 0 else fl32 (S (k - 1) + fl32 (S k - S (k - 1))))"
    unfolding compsalb_blend dp[symmetric] Sj
    by (rule grid_blend[of S k ip1 dpres ip2, OF rS br])
  have eT: "zi \<le> 19 \<Longrightarrow> comptrans h ip1 ip2 i1 i2 z q b (tp k) tp tab tr zstep zmin tt =
              Inr (if k = 0 then T 0 else fl32 (T (k - 1) + fl32 (T k - T (k - 1))))"
  proof -
    assume le: "zi \<le> 19"
    show ?thesis
      unfolding comptrans_blend[OF zi[symmetric] le] dp[symmetric] Tj
      using grid_blend[of T k ip1 dpres ip2, OF rT br] by simp
  qed
  have eP: "comproatm h ip1 ip2 i1 i2 zs zv ms mv cf q b (tp k) tp tab rl smax smin nc nf tt ind
              tv ss vs vmin js jv =
              (if k = 0 then P 0 else fl32 (P (k - 1) + fl32 (P k - P (k - 1))))"
    unfolding comproatm_blend_pres dp[symmetric] Pj
    by (rule grid_blend[of P k ip1 dpres ip2, OF rP br])
  have xS: "k = 0 \<or> fl32 (S k - S (k - 1)) = S k - S (k - 1) \<longrightarrow>
            compsalb h ip1 ip2 i1 i2 q b (tp k) tp tab alb nx = S k"
  proof
    assume "k = 0 \<or> fl32 (S k - S (k - 1)) = S k - S (k - 1)"
    from grid_blend_exact[of S k, OF rS this] show
      "compsalb h ip1 ip2 i1 i2 q b (tp k) tp tab alb nx = S k" unfolding eS .
  qed
  have xT: "zi \<le> 19 \<and> (k = 0 \<or> fl32 (T k - T (k - 1)) = T k - T (k - 1)) \<longrightarrow>
            comptrans h ip1 ip2 i1 i2 z q b (tp k) tp tab tr zstep zmin tt = Inr (T k)"
  proof
    assume a: "zi \<le> 19 \<and> (k = 0 \<or> fl32 (T k - T (k - 1)) = T k - T (k - 1))"
    then have le: "zi \<le> 19" and e: "k = 0 \<or> fl32 (T k - T (k - 1)) = T k - T (k - 1)"
      by blast+
    from grid_blend_exact[of T k, OF rT e] show
      "comptrans h ip1 ip2 i1 i2 z q b (tp k) tp tab tr zstep zmin tt = Inr (T k)"
      unfolding eT[OF le] by simp
  qed
  have xP: "k = 0 \<or> fl32 (P k - P (k - 1)) = P k - P (k - 1) \<longrightarrow>
            comproatm h ip1 ip2 i1 i2 zs zv ms mv cf q b (tp k) tp tab rl smax smin nc nf tt ind
              tv ss vs vmin js jv = P k"
  proof
    assume "k = 0 \<or> fl32 (P k - P (k - 1)) = P k - P (k - 1)"
    from grid_blend_exact[of P k, OF rP this] show
      "comproatm h ip1 ip2 i1 i2 zs zv ms mv cf q b (tp k) tp tab rl smax smin nc nf tt ind
         tv ss vs vmin js jv = P k" unfolding eP .
  qed
  have eT': "zi \<le> 19 \<longrightarrow> comptrans h ip1 ip2 i1 i2 z q b (tp k) tp tab tr zstep zmin tt =
              Inr (if k = 0 then T 0 else fl32 (T (k - 1) + fl32 (T k - T (k - 1))))"
    using eT by blast
  from c1 eS xS eT' xT eP xP show ?thesis unfolding S_def T_def P_def by blast
qed

lemma tpres_ex_desc:
  "\<forall>i j. 0 \<le> i \<and> i < j \<and> j < NPRES_VALS hdr_ex \<longrightarrow> tpres_ex j < tpres_ex i"
proof (intro allI impI)
  fix i j :: int
  assume a: "0 \<le> i \<and> i < j \<and> j < NPRES_VALS hdr_ex"
  then have j7: "j < 7" by (simp add: hdr_ex_def)
  from a have i: "i = 0 \<or> i = 1 \<or> i = 2 \<or> i = 3 \<or> i = 4 \<or> i = 5" using j7 by presburger
  from a have j: "j = 1 \<or> j = 2 \<or> j = 3 \<or> j = 4 \<or> j = 5 \<or> j = 6" using j7 by presburger
  from a have ij: "i < j" by simp
  from i j ij show "tpres_ex j < tpres_ex i"
    by (elim disjE) (simp_all add: tpres_ex_def)
qed

lemma ip1_scan_ex_1013: "ip1_scan hdr_ex 1013 tpres_ex = 0"
  unfolding ip1_scan_def by (simp add: upto.simps tpres_ex_def hdr_ex_def)


theorem pressure_grid_point_witness:
  "tpres_ex 1 = 1013 \<and> ip1_scan hdr_ex (tpres_ex 1) tpres_ex = 0 \<and>
   frac32 (tpres_ex 1) (tpres_ex 0) (tpres_ex (0 + 1)) = 1 \<and>
   salb_at_pres hdr_ex 0 8 9 1 0 aot_ex (sphalbt_ex (1 / 4) (1 / 2)) = 1 / 4 \<and>
   salb_at_pres hdr_ex 1 8 9 1 0 aot_ex (sphalbt_ex (1 / 4) (1 / 2)) = 1 / 2 \<and>
   compsalb hdr_ex 0 1 8 9 1 0 (tpres_ex 1) tpres_ex aot_ex (sphalbt_ex (1 / 4) (1 / 2))
     (\<lambda>i. 1) = 1 / 2 \<and>
   comptrans hdr_ex 0 1 8 9 30 1 0 (tpres_ex 1) tpres_ex aot_ex real_of_int 4 0
     (\<lambda>i. 4 * real_of_int i) =
     Inr (fl32 (trans_at_pres hdr_ex 0 8 9 30 1 0 aot_ex real_of_int (\<lambda>i. 4 * real_of_int i) 7 +
                fl32 (trans_at_pres hdr_ex 1 8 9 30 1 0 aot_ex real_of_int
                        (\<lambda>i. 4 * real_of_int i) 7 -
                      trans_at_pres hdr_ex 0 8 9 30 1 0 aot_ex real_of_int
                        (\<lambda>i. 4 * real_of_int i) 7)))"
proof -
  have k0: "(0::int) \<le> 1" and kN: "1 < NPRES_VALS hdr_ex" by (simp_all add: hdr_ex_def)
  have s: "ip1_scan hdr_ex (tpres_ex 1) tpres_ex = 0"
    using ip1_scan_ex_1013 by (simp add: tpres_ex_def)
  have ip1: "(0::int) = ip1_scan hdr_ex (tpres_ex 1) tpres_ex" using s by simp
  have ip2: "(1::int) = 0 + 1" by simp
  have ne: "tpres_ex 1 \<noteq> tpres_ex 0" by (simp add: tpres_ex_def)
  have dp: "(1::real) = frac32 (tpres_ex 1) (tpres_ex 0) (tpres_ex 1)"
    using frac32_hi[OF ne] by simp
  have f30: "fl32 30 = 30" by (rule fl32_exact_mult[of _ 30 0]) simp_all
  have f75: "fl32 (15 / 2) = 15 / 2" by (rule fl32_exact_div[of _ 15 1]) simp_all
  have zi: "(7::int) = sun_index 30 0 4"
    by (simp add: sun_index_def f30 f75 int_conv_def int_cast_def)
  have z7: "(7::int) \<le> 19" by simp
  have q: "fl32 (1 / 4) = 1 / 4" "fl32 (1 / 2) = 1 / 2"
    using fl32_exact_div[of "1 / 4" 1 2] fl32_exact_div[of "1 / 2" 1 1] by simp_all
  have s0: "salb_at_pres hdr_ex 0 8 9 1 0 aot_ex (sphalbt_ex (1 / 4) (1 / 2)) = 1 / 4"
    and s1: "salb_at_pres hdr_ex 1 8 9 1 0 aot_ex (sphalbt_ex (1 / 4) (1 / 2)) = 1 / 2"
    by (rule salb_at_pres_ex[OF q])+
  have ex: "(1::int) = 0 \<or>
     fl32 (salb_at_pres hdr_ex 1 8 9 1 0 aot_ex (sphalbt_ex (1 / 4) (1 / 2)) -
           salb_at_pres hdr_ex (1 - 1) 8 9 1 0 aot_ex (sphalbt_ex (1 / 4) (1 / 2))) =
     salb_at_pres hdr_ex 1 8 9 1 0 aot_ex (sphalbt_ex (1 / 4) (1 / 2)) -
     salb_at_pres hdr_ex (1 - 1) 8 9 1 0 aot_ex (sphalbt_ex (1 / 4) (1 / 2))"
    by (simp add: s0 s1 q)
  note g = pressure_grid_point[OF tpres_ex_desc k0 kN ip1 ip2 dp zi,
      of 8 9 1 0 aot_ex "sphalbt_ex (1 / 4) (1 / 2)" "\<lambda>i. 1" real_of_int
      "\<lambda>i. 4 * real_of_int i"]
  from g ex have c2: "compsalb hdr_ex 0 1 8 9 1 0 (tpres_ex 1) tpres_ex aot_ex
      (sphalbt_ex (1 / 4) (1 / 2)) (\<lambda>i. 1) =
      salb_at_pres hdr_ex 1 8 9 1 0 aot_ex (sphalbt_ex (1 / 4) (1 / 2))" by blast
  from g z7 have c3: "comptrans hdr_ex 0 1 8 9 30 1 0 (tpres_ex 1) tpres_ex aot_ex real_of_int
      4 0 (\<lambda>i. 4 * real_of_int i) =
     Inr (if (1::int) = 0
          then trans_at_pres hdr_ex 0 8 9 30 1 0 aot_ex real_of_int (\<lambda>i. 4 * real_of_int i) 7
          else fl32 (trans_at_pres hdr_ex (1 - 1) 8 9 30 1 0 aot_ex real_of_int
                       (\<lambda>i. 4 * real_of_int i) 7 +
                fl32 (trans_at_pres hdr_ex 1 8 9 30 1 0 aot_ex real_of_int
                        (\<lambda>i. 4 * real_of_int i) 7 -
                      trans_at_pres hdr_ex (1 - 1) 8 9 30 1 0 aot_ex real_of_int
                        (\<lambda>i. 4 * real_of_int i) 7)))"
    by blast
  have e1: "tpres_ex 1 = 1013" by (simp add: tpres_ex_def)
  have e2: "frac32 (tpres_ex 1) (tpres_ex 0) (tpres_ex (0 + 1)) = 1" using dp by simp
  from e1 s e2 s0 s1 c2 c3 show ?thesis by simp
qed

text \<open>
  A spherical albedo table with \<^verbatim>\<open>0.3f\<close> at the pressure index 0 and \<^verbatim>\<open>0.05f\<close> at the
  pressure index 1, and the query pressure \<open>1013 = tpres_ex 1\<close>: the bracket is
  \<open>(0, 1)\<close>, \<open>dpres\<close> is 1, and \<^verbatim>\<open>compsalb\<close> returns \<^verbatim>\<open>0.3f + (0.05f - 0.3f) * 1.0f\<close>, which
  is not the value \<^verbatim>\<open>0.05f\<close> of the pressure corner 1.
\<close>

theorem pressure_grid_point_counterexample:
  "tpres_ex 1 = 1013 \<and> ip1_scan hdr_ex (tpres_ex 1) tpres_ex = 0 \<and>
   frac32 (tpres_ex 1) (tpres_ex 0) (tpres_ex 1) = 1 \<and>
   salb_at_pres hdr_ex 1 8 9 1 0 aot_ex (sphalbt_ex f32_0_3 f32_0_05) = 13421773 / 268435456 \<and>
   compsalb hdr_ex 0 1 8 9 1 0 (tpres_ex 1) tpres_ex aot_ex (sphalbt_ex f32_0_3 f32_0_05)
     (\<lambda>i. 1) = 13421776 / 268435456"
proof -
  have e1: "tpres_ex 1 = 1013" by (simp add: tpres_ex_def)
  have s: "ip1_scan hdr_ex (tpres_ex 1) tpres_ex = 0"
    using ip1_scan_ex_1013 by (simp add: tpres_ex_def)
  have ne: "tpres_ex 1 \<noteq> tpres_ex 0" by (simp add: tpres_ex_def)
  have dp: "frac32 (tpres_ex 1) (tpres_ex 0) (tpres_ex 1) = 1" by (rule frac32_hi[OF ne])
  have s0: "salb_at_pres hdr_ex 0 8 9 1 0 aot_ex (sphalbt_ex f32_0_3 f32_0_05) = f32_0_3"
    and s1: "salb_at_pres hdr_ex 1 8 9 1 0 aot_ex (sphalbt_ex f32_0_3 f32_0_05) = f32_0_05"
    by (rule salb_at_pres_ex[OF f32_rounded])+
  have c: "compsalb hdr_ex 0 1 8 9 1 0 (tpres_ex 1) tpres_ex aot_ex
             (sphalbt_ex f32_0_3 f32_0_05) (\<lambda>i. 1) = 13421776 / 268435456"
    unfolding compsalb_blend s0 s1 dp by (rule lerp32_03_005)
  have s1': "salb_at_pres hdr_ex 1 8 9 1 0 aot_ex (sphalbt_ex f32_0_3 f32_0_05) =
             13421773 / 268435456"
    unfolding s1 by (simp add: f32_0_05_def)
  from e1 s dp s1' c show ?thesis by blast
qed


subsection \<open>Zero tables\<close>

lemma comproatm_zero:
  assumes "\<forall>i. rl i = 0"
  shows "comproatm h ip1 ip2 i1 i2 zs zv ms mv cf q b p tp tab rl smax smin nc nf tt ind tv ss
           vs vmin js jv = 0"
  by (rule comproatm_const[OF assms fl32_zero])

lemma compsalb_zero:
  assumes "\<forall>i. alb i = 0"
  shows "compsalb h ip1 ip2 i1 i2 q b p tp tab alb nx = 0"
  by (rule compsalb_const[OF assms fl32_zero])

lemma comptrans_zero:
  assumes "\<forall>i. tr i = 0" and "sun_index z zmin zstep \<le> 19"
  shows "comptrans h ip1 ip2 i1 i2 z q b p tp tab tr zstep zmin tt = Inr 0"
  by (rule comptrans_const[OF assms(1) fl32_zero assms(2)])


text \<open>
  Claim C6, as amended. If the intrinsic reflectance table and the spherical albedo
  table are zero everywhere and the solar zenith angle is within the table, then
  \<^verbatim>\<open>atmcorlamb2\<close> returns \<^verbatim>\<open>SUCCESS\<close> with \<open>satm = 0\<close>,
  \<open>roatm = (1 - tgwvhalf) * rorayp\<close> and \<open>roslamb = (rotoa / tgo - roatm) / ttatmg\<close>.
  If the transmission table is zero everywhere as well, then \<open>ttatmg = 0\<close>: the final
  division is a division by zero and \<open>roslamb\<close> is no finite number, in particular not
  \<open>rotoa / tgo\<close>.
\<close>

theorem zero_tables:
  assumes its: "its_of a \<le> 19"
    and rl: "\<forall>i. rolutt a i = 0" and alb: "\<forall>i. sphalbt a i = 0"
  shows "\<exists>out. atmcorlamb2 h xtts0 xttv0 a = Inr out \<and>
           satm out = 0 \<and>
           roatm out = (1 - fst (snd (snd (gas_of h a)))) * rorayp_of h a \<and>
           roslamb out = fdiv (rotoa a / tgo out - roatm out) (ttatmg out) \<and>
           ((\<forall>i. transt a i = 0) \<longrightarrow> ttatmg out = 0 \<and> roslamb out = None)"
proof -
  obtain tgoz tgwv tgwvhalf tgog where g: "gas_of h a = (tgoz, tgwv, tgwvhalf, tgog)"
    by (cases "gas_of h a") auto
  have r0: "roatm_lut h a = 0" unfolding roatm_lut_def Let_def by (rule comproatm_zero[OF rl])
  have s0: "satm_lut h a = 0" unfolding satm_lut_def Let_def by (rule compsalb_zero[OF alb])
  have t0: "(\<forall>i. transt a i = 0) \<Longrightarrow> stored xtts0 (trans_solar h a) = 0"
  proof -
    assume tr: "\<forall>i. transt a i = 0"
    have "sun_index (xts a) (xtsmin a) (xtsstep a) \<le> 19"
      using its by (simp add: its_of_def)
    from comptrans_zero[OF tr this] show ?thesis
      by (simp add: trans_solar_def Let_def stored_def)
  qed
  define out where "out = projr (atmcorlamb2 h xtts0 xttv0 a)"
  have ok: "atmcorlamb2 h xtts0 xttv0 a = Inr out"
    unfolding out_def using atmcorlamb2_Inr[OF its, of h xtts0 xttv0] g by simp
  have f: "satm out = 0"
    "roatm out = (1 - tgwvhalf) * rorayp_of h a"
    "ttatmg out = stored xtts0 (trans_solar h a) * stored xttv0 (trans_view h a) * tgwv"
    "roslamb out = fdiv (rotoa a / tgo out - roatm out) (ttatmg out)"
    unfolding out_def using atmcorlamb2_Inr[OF its, of h xtts0 xttv0] g r0 s0
    by (simp_all add: algebra_simps)
  have z: "(\<forall>i. transt a i = 0) \<longrightarrow> ttatmg out = 0 \<and> roslamb out = None"
  proof
    assume tr: "\<forall>i. transt a i = 0"
    have "ttatmg out = 0" using f(3) t0[OF tr] by simp
    then show "ttatmg out = 0 \<and> roslamb out = None" using f(4) by (simp add: fdiv_def)
  qed
  from ok f z g show ?thesis by auto
qed

lemma px_ex_zero:
  "\<forall>i. rolutt px_ex i = 0" "\<forall>i. sphalbt px_ex i = 0" "\<forall>i. transt px_ex i = 0"
  by (simp_all add: px_ex_def zero_lut_def)

theorem zero_tables_witness:
  "\<exists>out. atmcorlamb2 hdr_ex 0 0 px_ex = Inr out \<and> satm out = 0 \<and> roatm out = 0 \<and>
         ttatmg out = 0 \<and> roslamb out = None"
proof -
  have its: "its_of px_ex \<le> 19" by (simp add: its_of_px_ex)
  from zero_tables[OF its px_ex_zero(1) px_ex_zero(2), of hdr_ex 0 0] px_ex_zero(3)
  show ?thesis by (auto simp add: gas_of_px_ex)
qed

theorem zero_tables_counterexample:
  "rolutt px_ex = zero_lut \<and> transt px_ex = zero_lut \<and> sphalbt px_ex = zero_lut \<and>
   atmcorlamb2 hdr_ex 0 0 px_ex = Inr (projr (atmcorlamb2 hdr_ex 0 0 px_ex)) \<and>
   rotoa px_ex / tgo (projr (atmcorlamb2 hdr_ex 0 0 px_ex)) = 1 \<and>
   roslamb (projr (atmcorlamb2 hdr_ex 0 0 px_ex)) = None \<and>
   roslamb (projr (atmcorlamb2 hdr_ex 0 0 px_ex)) \<noteq>
     Some (rotoa px_ex / tgo (projr (atmcorlamb2 hdr_ex 0 0 px_ex)))"
proof -
  have its: "its_of px_ex \<le> 19" by (simp add: its_of_px_ex)
  have r0: "roatm_lut hdr_ex px_ex = 0"
    unfolding roatm_lut_def Let_def by (rule comproatm_zero[OF px_ex_zero(1)])
  have s0: "satm_lut hdr_ex px_ex = 0"
    unfolding satm_lut_def Let_def by (rule compsalb_zero[OF px_ex_zero(2)])
  have "sun_index (xts px_ex) (xtsmin px_ex) (xtsstep px_ex) \<le> 19"
    by (simp add: sun_index_def px_ex_def)
  from comptrans_zero[OF px_ex_zero(3) this]
  have t0: "stored 0 (trans_solar hdr_ex px_ex) = 0"
    by (simp add: trans_solar_def Let_def stored_def)
  have e: "atmcorlamb2 hdr_ex 0 0 px_ex =
        Inr \<lparr>roslamb = None, tgo = 1, roatm = 0, ttatmg = 0, satm = 0,
             xrorayp = rorayp_of hdr_ex px_ex\<rparr>"
    using atmcorlamb2_Inr[OF its, of hdr_ex 0 0] r0 s0 t0
    by (simp add: gas_of_px_ex fdiv_def)
  have t: "rolutt px_ex = zero_lut \<and> transt px_ex = zero_lut \<and> sphalbt px_ex = zero_lut"
    by (simp add: px_ex_def)
  have r: "rotoa px_ex = 1" by (simp add: px_ex_def)
  from t r show ?thesis unfolding e by simp
qed


subsection \<open>A query AOT on the grid\<close>



lemma exp_ge_partial_sum:
  fixes x :: real
  assumes "0 \<le> x"
  shows "(\<Sum>k<n. x ^ k / fact k) \<le> exp x"
proof -
  have s: "summable (\<lambda>k. x ^ k /\<^sub>R fact k)" by (rule summable_exp_generic)
  have "(\<Sum>k\<in>{..<n}. x ^ k /\<^sub>R fact k) \<le> (\<Sum>k. x ^ k /\<^sub>R fact k)"
    by (rule sum_le_suminf[OF s]) (use assms in auto)
  then show ?thesis by (simp add: exp_def divide_inverse mult.commute)
qed








text \<open>
  The initialiser of the cached logarithm of the grid entry 2.0 (index 14) is
  \<open>0.693157181\<close>; it exceeds \<open>ln 2\<close> by more than \<open>9 / 10 ^ 6\<close>.
\<close>

lemma cached_log_2_off: "ln (2::real) + 9 / 1000000 < logaot550nm_dec ! 14"
proof -
  have "(2::real) < (\<Sum>k<9. (693148181 / 1000000000) ^ k / fact k)"
    by (simp add: eval_nat_numeral fact_numeral power_divide)
  also have "\<dots> \<le> exp (693148181 / 1000000000)"
    by (rule exp_ge_partial_sum) simp
  finally have "ln (2::real) < ln (exp (693148181 / 1000000000))"
    by (subst ln_less_cancel_iff) simp_all
  then show ?thesis by (simp add: logaot550nm_dec_def)
qed





end
